theory Spec2Isabelle
  imports Complex_Main
begin

section \<open>Python values used by the loader\<close>

text \<open>
  The exceptions that \<^verbatim>\<open>libs/datasets/kinetics.py\<close> can raise. \<open>RuntimeError p n\<close> is
  the exhaustion error \<^verbatim>\<open>"Failed to fetch video {} after {} retries."\<close> with the two
  values the message is formatted from.
\<close>

datatype error =
    AssertionError
  | AttributeError
  | ValueError
  | IndexError
  | KeyError
  | ZeroDivisionError
  | NotImplementedError
  | RuntimeError string int

text \<open>\<^verbatim>\<open>xs[i]\<close> on a Python list: a negative index counts from the end.\<close>

definition py_get :: "'a list \<Rightarrow> int \<Rightarrow> error + 'a" where
  "py_get xs i =
     (if 0 \<le> i \<and> i < int (length xs) then Inr (xs ! nat i)
      else if i < 0 \<and> - int (length xs) \<le> i then Inr (xs ! nat (int (length xs) + i))
      else Inl IndexError)"

text \<open>\<^verbatim>\<open>a // b\<close> and \<^verbatim>\<open>a % b\<close> on Python ints (floor division, as \<open>div\<close> and \<open>mod\<close> on \<open>int\<close>).\<close>

definition py_floordiv :: "int \<Rightarrow> int \<Rightarrow> error + int" where
  "py_floordiv a b = (if b = 0 then Inl ZeroDivisionError else Inr (a div b))"

definition py_mod :: "int \<Rightarrow> int \<Rightarrow> error + int" where
  "py_mod a b = (if b = 0 then Inl ZeroDivisionError else Inr (a mod b))"

text \<open>\<^verbatim>\<open>range(n)\<close>: empty when \<open>n \<le> 0\<close>.\<close>

definition py_range :: "int \<Rightarrow> nat list" where
  "py_range n = [0..<nat n]"

text \<open>
  \<^verbatim>\<open>s.split(sep)\<close> for a separator string: every non-overlapping occurrence of \<open>sep\<close>, found
  from the left, ends a field; an empty separator raises ValueError.
\<close>

function split_from :: "string \<Rightarrow> string \<Rightarrow> string \<Rightarrow> string list" where
  "split_from sep cur [] = [cur]"
| "split_from sep cur (c # cs) =
     (if sep \<noteq> [] \<and> take (length sep) (c # cs) = sep
      then cur # split_from sep [] (drop (length sep) (c # cs))
      else split_from sep (cur @ [c]) cs)"
  by pat_completeness auto
termination
  by (relation "measure (\<lambda>(sep, cur, s). length s)") auto

definition str_split :: "string \<Rightarrow> string \<Rightarrow> error + string list" where
  "str_split s sep = (if sep = [] then Inl ValueError else Inr (split_from sep [] s))"

section \<open>Configuration, collaborators and the dataset object\<close>

text \<open>
  The fields of \<^verbatim>\<open>cfg\<close> that the control flow of the class reads. Floats are reals;
  configuration values that are only handed on to a collaborator (MEAN, STD, NUM_FRAMES,
  SAMPLING_RATE, TARGET_FPS, DECODING_BACKEND, RANDOM_FLIP, ...) are part of the
  collaborator.
\<close>

record cfg_node =
  DATA_PATH_LABEL_SEPARATOR :: string
  DATA_PATH_PREFIX :: string
  DATA_TRAIN_JITTER_SCALES :: "int list"
  DATA_TRAIN_CROP_SIZE :: int
  DATA_TEST_CROP_SIZE :: int
  DATA_TRAIN_JITTER_SCALES_RELATIVE :: "real list"
  DATA_TRAIN_JITTER_ASPECT_RELATIVE :: "real list"
  DATA_TRAIN_JITTER_MOTION_SHIFT :: bool
  TEST_NUM_ENSEMBLE_VIEWS :: int
  TEST_NUM_SPATIAL_CROPS :: int
  MULTIGRID_SHORT_CYCLE_FACTORS :: "real list"
  MULTIGRID_DEFAULT_S :: int
  AUG_ENABLE :: bool
  AUG_NUM_SAMPLE :: int
  AUG_RE_PROB :: real

text \<open>
  The collaborators the class calls, as parameters: \<open>'c\<close> is a video container, \<open>'f\<close> a
  frame tensor, \<open>'t\<close> a packed item tensor.
  \<^item> \<open>os_path_join\<close>, \<open>py_int\<close>: \<^verbatim>\<open>os.path.join\<close> and \<^verbatim>\<open>int(label)\<close> (\<open>None\<close>: ValueError);
  \<^item> \<open>round_mul f s\<close> is \<^verbatim>\<open>int(round(f * s))\<close> and \<open>round_muldiv a b s\<close> is
    \<^verbatim>\<open>int(round(float(a) * b / s))\<close>, both in floating point;
  \<^item> \<open>get_video_container i p\<close> is the result of \<^verbatim>\<open>container.get_video_container\<close> on path
    \<open>p\<close> at attempt \<open>i\<close>; \<open>None\<close> stands for an exception (caught and logged by the class)
    and for a returned \<^verbatim>\<open>None\<close>;
  \<^item> \<open>decode i c t k s\<close> is \<^verbatim>\<open>decoder.decode\<close> at attempt \<open>i\<close> on container \<open>c\<close> with
    temporal sample index \<open>t\<close>, the metadata slot of key \<open>k\<close> and \<^verbatim>\<open>max_spatial_scale\<close> \<open>s\<close>;
    \<open>None\<close> is the result \<^verbatim>\<open>(None, None)\<close>;
  \<^item> \<open>rand i\<close> is the randomness that \<^verbatim>\<open>random.randint\<close> consumes at attempt \<open>i\<close>;
  \<^item> the tensor kernels; a random one takes the number of the draw first.
\<close>

record ('c, 'f, 't) externals =
  os_path_join :: "string \<Rightarrow> string \<Rightarrow> string"
  py_int :: "string \<Rightarrow> int option"
  round_mul :: "real \<Rightarrow> int \<Rightarrow> int"
  round_muldiv :: "int \<Rightarrow> int \<Rightarrow> int \<Rightarrow> int"
  get_video_container :: "nat \<Rightarrow> string \<Rightarrow> 'c option"
  decode :: "nat \<Rightarrow> 'c \<Rightarrow> int \<Rightarrow> int \<Rightarrow> int \<Rightarrow> ('f \<times> int list) option"
  rand :: "nat \<Rightarrow> nat"
  random_augment :: "nat \<Rightarrow> 'f \<Rightarrow> 'f"
  tensor_normalize :: "'f \<Rightarrow> 'f"
  permute :: "'f \<Rightarrow> nat list \<Rightarrow> 'f"
  spatial_sampling ::
    "nat \<Rightarrow> 'f \<Rightarrow> int \<Rightarrow> int \<Rightarrow> int \<Rightarrow> int \<Rightarrow> real list option \<Rightarrow> real list option \<Rightarrow> bool \<Rightarrow> 'f"
  random_erasing :: "nat \<Rightarrow> 'f \<Rightarrow> 'f"
  pack_pathway_output :: "'f \<Rightarrow> int list option \<Rightarrow> 't"

text \<open>
  The attributes of a \<^verbatim>\<open>Kinetics\<close> object. A slot of \<^verbatim>\<open>_video_meta\<close> starts as the empty
  dict and only the decoder reads and writes its contents, so a slot is its key.
\<close>

record kinetics =
  mode :: string
  cfg :: cfg_node
  video_meta :: "int \<rightharpoonup> unit"
  num_retries :: int
  num_clips :: int
  path_to_videos :: "string list"
  labels :: "int list"
  spatial_temporal_idx :: "int list"
  aug :: bool
  rand_erase :: bool

section \<open>Construction\<close>

text \<open>
  \<^verbatim>\<open>for idx in range(self._num_clips)\<close> of \<^verbatim>\<open>_construct_loader\<close>: one logical entry per
  clip of the line \<open>clip_idx\<close>.
\<close>

fun clips_loop ::
  "('c, 'f, 't) externals \<Rightarrow> nat \<Rightarrow> string \<Rightarrow> string \<Rightarrow> kinetics \<Rightarrow> nat list \<Rightarrow> error + kinetics"
where
  "clips_loop ext clip_idx path label ds [] = Inr ds"
| "clips_loop ext clip_idx path label ds (idx # idxs) =
     (case py_int ext label of
        None \<Rightarrow> Inl ValueError
      | Some l \<Rightarrow>
          clips_loop ext clip_idx path label
            (ds\<lparr>path_to_videos :=
                  path_to_videos ds @ [os_path_join ext (DATA_PATH_PREFIX (cfg ds)) path],
                labels := labels ds @ [l],
                spatial_temporal_idx := spatial_temporal_idx ds @ [int idx],
                video_meta := (video_meta ds)(int clip_idx * num_clips ds + int idx \<mapsto> ())\<rparr>)
            idxs)"

text \<open>
  \<^verbatim>\<open>for clip_idx, path_label in enumerate(f.read().splitlines())\<close>: the lines of the
  manifest, numbered from \<open>clip_idx\<close>.
\<close>

fun lines_loop ::
  "('c, 'f, 't) externals \<Rightarrow> kinetics \<Rightarrow> nat \<Rightarrow> string list \<Rightarrow> error + kinetics"
where
  "lines_loop ext ds clip_idx [] = Inr ds"
| "lines_loop ext ds clip_idx (path_label # rest) =
     (case str_split path_label (DATA_PATH_LABEL_SEPARATOR (cfg ds)) of
        Inl e \<Rightarrow> Inl e
      | Inr parts \<Rightarrow>
          if length parts = 2
          then (case clips_loop ext clip_idx (parts ! 0) (parts ! 1) ds
                       (py_range (num_clips ds)) of
                  Inl e \<Rightarrow> Inl e
                | Inr ds' \<Rightarrow> lines_loop ext ds' (Suc clip_idx) rest)
          else Inl AssertionError)"

text \<open>
  \<^verbatim>\<open>_construct_loader\<close>. The file is \<open>None\<close> when \<^verbatim>\<open>pathmgr.exists\<close> is false, else the
  lines \<^verbatim>\<open>f.read().splitlines()\<close>. The message of the last assertion reads
  \<^verbatim>\<open>self._split_idx\<close>, which the class never sets: on an empty manifest building the
  message raises AttributeError.
\<close>

definition construct_loader ::
  "('c, 'f, 't) externals \<Rightarrow> kinetics \<Rightarrow> string list option \<Rightarrow> error + kinetics"
where
  "construct_loader ext ds file =
     (case file of
        None \<Rightarrow> Inl AssertionError
      | Some lns \<Rightarrow>
          (case lines_loop ext
                  (ds\<lparr>path_to_videos := [], labels := [], spatial_temporal_idx := []\<rparr>) 0 lns of
             Inl e \<Rightarrow> Inl e
           | Inr ds' \<Rightarrow>
               if length (path_to_videos ds') > 0 then Inr ds' else Inl AttributeError))"

text \<open>
  \<^verbatim>\<open>Kinetics.__init__(cfg, mode, num_retries)\<close>. First the attributes set before the
  manifest is read (the lists are empty and the two flags false until then).
\<close>

definition initial :: "cfg_node \<Rightarrow> string \<Rightarrow> int \<Rightarrow> kinetics" where
  "initial c m n =
     \<lparr>mode = m, cfg = c, video_meta = Map.empty, num_retries = n,
      num_clips =
        (if m = ''train'' \<or> m = ''val'' then 1
         else TEST_NUM_ENSEMBLE_VIEWS c * TEST_NUM_SPATIAL_CROPS c),
      path_to_videos = [], labels = [], spatial_temporal_idx = [],
      aug = False, rand_erase = False\<rparr>"


definition init ::
  "('c, 'f, 't) externals \<Rightarrow> cfg_node \<Rightarrow> string \<Rightarrow> int \<Rightarrow> string list option \<Rightarrow> error + kinetics"
where
  "init ext c m n file =
     (if m = ''train'' \<or> m = ''val'' \<or> m = ''test''
      then
        (case construct_loader ext (initial c m n) file of
           Inl e \<Rightarrow> Inl e
         | Inr ds \<Rightarrow>
             Inr (if m = ''train'' \<and> AUG_ENABLE c
                  then ds\<lparr>aug := True, rand_erase := (0 < AUG_RE_PROB c)\<rparr>
                  else ds))
      else Inl AssertionError)"

text \<open>\<^verbatim>\<open>__len__\<close>, through the property \<^verbatim>\<open>num_videos\<close>.\<close>

definition num_videos :: "kinetics \<Rightarrow> int" where
  "num_videos ds = int (length (path_to_videos ds))"

definition len :: "kinetics \<Rightarrow> int" where
  "len ds = num_videos ds"

section \<open>Resolving the sampling of an item\<close>

text \<open>
  The argument of \<^verbatim>\<open>__getitem__\<close>: an index, or the tuple \<^verbatim>\<open>(index, short_cycle_idx)\<close> of a
  short-cycle sampler.
\<close>

datatype index_arg = Index int | ShortCycle int int

fun unpack_index :: "index_arg \<Rightarrow> int \<times> int option" where
  "unpack_index (Index i) = (i, None)"
| "unpack_index (ShortCycle i s) = (i, Some s)"

record sampling =
  temporal_sample_index :: int
  spatial_sample_index :: int
  min_scale :: int
  max_scale :: int
  crop_size :: int

text \<open>
  The first part of \<^verbatim>\<open>__getitem__\<close> (up to the retry loop): the branch on \<^verbatim>\<open>self.mode\<close>
  that sets the two sample indices, the two scales and the crop size.
\<close>

definition resolve_train_val ::
  "('c, 'f, 't) externals \<Rightarrow> cfg_node \<Rightarrow> int option \<Rightarrow> error + sampling"
where
  "resolve_train_val ext c short_cycle_idx =
     (case py_get (DATA_TRAIN_JITTER_SCALES c) 0 of
        Inl e \<Rightarrow> Inl e
      | Inr min0 \<Rightarrow>
     (case py_get (DATA_TRAIN_JITTER_SCALES c) 1 of
        Inl e \<Rightarrow> Inl e
      | Inr max0 \<Rightarrow>
     (case (case short_cycle_idx of
              None \<Rightarrow> Inr (DATA_TRAIN_CROP_SIZE c)
            | Some s \<Rightarrow>
                if s = 0 \<or> s = 1
                then (case py_get (MULTIGRID_SHORT_CYCLE_FACTORS c) s of
                        Inl e \<Rightarrow> Inl e
                      | Inr f \<Rightarrow> Inr (round_mul ext f (MULTIGRID_DEFAULT_S c)))
                else Inr (DATA_TRAIN_CROP_SIZE c)) of
        Inl e \<Rightarrow> Inl e
      | Inr crop \<Rightarrow>
          Inr \<lparr>temporal_sample_index = - 1,
               spatial_sample_index = - 1,
               min_scale =
                 (if MULTIGRID_DEFAULT_S c > 0
                  then round_muldiv ext min0 crop (MULTIGRID_DEFAULT_S c)
                  else min0),
               max_scale = max0,
               crop_size = crop\<rparr>)))"

definition resolve_test :: "kinetics \<Rightarrow> int \<Rightarrow> error + sampling" where
  "resolve_test ds index =
     (let c = cfg ds in
      case py_get (spatial_temporal_idx ds) index of
        Inl e \<Rightarrow> Inl e
      | Inr st \<Rightarrow>
     (case py_floordiv st (TEST_NUM_SPATIAL_CROPS c) of
        Inl e \<Rightarrow> Inl e
      | Inr temporal \<Rightarrow>
     (case (if TEST_NUM_SPATIAL_CROPS c > 1 then py_mod st (TEST_NUM_SPATIAL_CROPS c)
            else Inr 1) of
        Inl e \<Rightarrow> Inl e
      | Inr spatial \<Rightarrow>
     (case (if TEST_NUM_SPATIAL_CROPS c > 1
            then Inr (DATA_TEST_CROP_SIZE c, DATA_TEST_CROP_SIZE c, DATA_TEST_CROP_SIZE c)
            else (case py_get (DATA_TRAIN_JITTER_SCALES c) 0 of
                    Inl e \<Rightarrow> Inl e
                  | Inr s \<Rightarrow> Inr (s, s, DATA_TEST_CROP_SIZE c))) of
        Inl e \<Rightarrow> Inl e
      | Inr (mn, mx, crop) \<Rightarrow>
          if mn = mx
          then Inr \<lparr>temporal_sample_index = temporal, spatial_sample_index = spatial,
                    min_scale = mn, max_scale = mx, crop_size = crop\<rparr>
          else Inl AssertionError))))"

definition resolve_sampling ::
  "kinetics \<Rightarrow> ('c, 'f, 't) externals \<Rightarrow> int \<Rightarrow> int option \<Rightarrow> error + sampling"
where
  "resolve_sampling ds ext index short_cycle_idx =
     (if mode ds = ''train'' \<or> mode ds = ''val''
      then resolve_train_val ext (cfg ds) short_cycle_idx
      else if mode ds = ''test'' then resolve_test ds index
      else Inl NotImplementedError)"

section \<open>Augmentation and item assembly\<close>

text \<open>
  What \<^verbatim>\<open>__getitem__\<close> returns: \<^verbatim>\<open>(frames, label, index, {})\<close>, or the three parallel lists
  \<^verbatim>\<open>(frame_list, label_list, index_list, {})\<close>. The last component is always the empty
  dict.
\<close>

datatype 't item = Single 't int int | Multi "'t list" "int list" "int list"

text \<open>
  \<^verbatim>\<open>_aug_frame\<close>, for draw number \<open>k\<close>. \<open>random_augment\<close> is the transform of
  \<^verbatim>\<open>create_random_augment\<close> on the frame images (\<^verbatim>\<open>_frame_to_list_img\<close>,
  \<^verbatim>\<open>_list_img_to_frames\<close>).
\<close>

definition aug_frame ::
  "kinetics \<Rightarrow> ('c, 'f, 't) externals \<Rightarrow> nat \<Rightarrow> 'f \<Rightarrow> int \<Rightarrow> int \<Rightarrow> int \<Rightarrow> int \<Rightarrow> 'f"
where
  "aug_frame ds ext k frames spatial mn mx crop =
     (let f1 = permute ext frames [0, 3, 1, 2];
          f2 = random_augment ext k f1;
          f3 = permute ext f2 [0, 2, 3, 1];
          f4 = tensor_normalize ext f3;
          f5 = permute ext f4 [3, 0, 1, 2];
          scl = DATA_TRAIN_JITTER_SCALES_RELATIVE (cfg ds);
          asp = DATA_TRAIN_JITTER_ASPECT_RELATIVE (cfg ds);
          relative_scales = (if mode ds = ''train'' \<and> scl \<noteq> [] then Some scl else None);
          relative_aspect = (if mode ds = ''train'' \<and> asp \<noteq> [] then Some asp else None);
          f6 = spatial_sampling ext k f5 spatial mn mx crop relative_aspect relative_scales
                 (if mode ds = ''train'' then DATA_TRAIN_JITTER_MOTION_SHIFT (cfg ds)
                  else False)
      in if rand_erase ds
         then permute ext (random_erasing ext k (permute ext f6 [1, 0, 2, 3])) [1, 0, 2, 3]
         else f6)"

text \<open>The branch without policy augmentation: normalize, channel first, spatial sampling.\<close>

definition plain_frames ::
  "('c, 'f, 't) externals \<Rightarrow> 'f \<Rightarrow> int \<Rightarrow> int \<Rightarrow> int \<Rightarrow> int \<Rightarrow> 'f"
where
  "plain_frames ext frames spatial mn mx crop =
     spatial_sampling ext 0 (permute ext (tensor_normalize ext frames) [3, 0, 1, 2])
       spatial mn mx crop None None False"

text \<open>\<^verbatim>\<open>for _ in range(self.cfg.AUG.NUM_SAMPLE)\<close>, with the three lists it appends to.\<close>

fun samples_loop ::
  "kinetics \<Rightarrow> ('c, 'f, 't) externals \<Rightarrow> sampling \<Rightarrow> 'f \<Rightarrow> int \<Rightarrow> nat list \<Rightarrow>
   't list \<Rightarrow> int list \<Rightarrow> int list \<Rightarrow> error + 't item"
where
  "samples_loop ds ext sd frames index [] frame_list label_list index_list =
     Inr (Multi frame_list label_list index_list)"
| "samples_loop ds ext sd frames index (k # ks) frame_list label_list index_list =
     (let new_frames = aug_frame ds ext k frames (spatial_sample_index sd) (min_scale sd)
                         (max_scale sd) (crop_size sd)
      in case py_get (labels ds) index of
           Inl e \<Rightarrow> Inl e
         | Inr label \<Rightarrow>
             samples_loop ds ext sd frames index ks
               (frame_list @ [pack_pathway_output ext new_frames None])
               (label_list @ [label]) (index_list @ [index]))"

text \<open>The end of the loop body: the label, the packing and the scalar item.\<close>

definition single_item ::
  "kinetics \<Rightarrow> ('c, 'f, 't) externals \<Rightarrow> 'f \<Rightarrow> int list \<Rightarrow> int \<Rightarrow> error + 't item"
where
  "single_item ds ext frames frames_index index =
     (case py_get (labels ds) index of
        Inl e \<Rightarrow> Inl e
      | Inr label \<Rightarrow>
          Inr (Single (pack_pathway_output ext frames (Some frames_index)) label index))"

text \<open>The part of the loop body after a successful decode.\<close>

definition assemble ::
  "kinetics \<Rightarrow> ('c, 'f, 't) externals \<Rightarrow> sampling \<Rightarrow> 'f \<Rightarrow> int list \<Rightarrow> int \<Rightarrow> error + 't item"
where
  "assemble ds ext sd frames frames_index index =
     (if aug ds
      then
        (if AUG_NUM_SAMPLE (cfg ds) > 1
         then samples_loop ds ext sd frames index (py_range (AUG_NUM_SAMPLE (cfg ds))) [] [] []
         else single_item ds ext
                (aug_frame ds ext 0 frames (spatial_sample_index sd) (min_scale sd)
                   (max_scale sd) (crop_size sd))
                frames_index index)
      else single_item ds ext
             (plain_frames ext frames (spatial_sample_index sd) (min_scale sd)
                (max_scale sd) (crop_size sd))
             frames_index index)"

section \<open>The retry loop\<close>

text \<open>
  The calls that leave the class during the loop, in order: an acquisition (attempt, path),
  a decode (attempt, key of the metadata slot), a \<^verbatim>\<open>random.randint\<close> (bounds) and the
  \<^verbatim>\<open>print\<close> of the test-mode replacement. Messages to \<^verbatim>\<open>logger\<close> are left out.
\<close>

datatype event = Acquire nat string | Decode nat int | Randint int int | Print

text \<open>\<^verbatim>\<open>random.randint(a, b)\<close>: a value of \<open>[a, b]\<close>, ValueError when the range is empty.\<close>

definition py_randint ::
  "('c, 'f, 't) externals \<Rightarrow> nat \<Rightarrow> int \<Rightarrow> int \<Rightarrow> event list \<times> (error + int)"
where
  "py_randint ext k a b =
     ([Randint a b],
      if b < a then Inl ValueError else Inr (a + int (rand ext k) mod (b - a + 1)))"

text \<open>
  The two \<^verbatim>\<open>if\<close> statements before each \<^verbatim>\<open>continue\<close> (the same text after a failed
  acquisition and after a failed decode): the next candidate index.
\<close>

definition replacement ::
  "kinetics \<Rightarrow> ('c, 'f, 't) externals \<Rightarrow> nat \<Rightarrow> int \<Rightarrow> event list \<times> (error + int)"
where
  "replacement ds ext i_try index =
     (case (if mode ds \<noteq> ''test'' \<and> num_retries ds div 2 < int i_try
            then py_randint ext i_try 0 (int (length (path_to_videos ds)) - 1)
            else ([], Inr index)) of
        (evs, Inl e) \<Rightarrow> (evs, Inl e)
      | (evs, Inr index') \<Rightarrow>
          if mode ds = ''test'' \<and> num_retries ds div 2 < int i_try
          then (evs @ [Print], Inr (index' + 1))
          else (evs, Inr index'))"

datatype 't outcome = Continue int | Return "'t item" | Raise error

text \<open>
  One pass through the body of \<^verbatim>\<open>for i_try in range(self._num_retries)\<close>. An IndexError of
  \<^verbatim>\<open>self._path_to_videos[index]\<close> is caught by the \<^verbatim>\<open>except\<close> clause, whose log message
  reads the same element and raises it again.
\<close>

definition attempt ::
  "kinetics \<Rightarrow> ('c, 'f, 't) externals \<Rightarrow> sampling \<Rightarrow> nat \<Rightarrow> int \<Rightarrow> event list \<times> 't outcome"
where
  "attempt ds ext sd i_try index =
     (case py_get (path_to_videos ds) index of
        Inl e \<Rightarrow> ([], Raise e)
      | Inr p \<Rightarrow>
     (case get_video_container ext i_try p of
        None \<Rightarrow>
          (case replacement ds ext i_try index of
             (evs, Inl e) \<Rightarrow> (Acquire i_try p # evs, Raise e)
           | (evs, Inr index') \<Rightarrow> (Acquire i_try p # evs, Continue index'))
      | Some video_container \<Rightarrow>
     (case video_meta ds index of
        None \<Rightarrow> ([Acquire i_try p], Raise KeyError)
      | Some m \<Rightarrow>
     (case decode ext i_try video_container (temporal_sample_index sd) index (min_scale sd) of
        None \<Rightarrow>
          (case replacement ds ext i_try index of
             (evs, Inl e) \<Rightarrow> (Acquire i_try p # Decode i_try index # evs, Raise e)
           | (evs, Inr index') \<Rightarrow> (Acquire i_try p # Decode i_try index # evs, Continue index'))
      | Some (frames, frames_index) \<Rightarrow>
          (case assemble ds ext sd frames frames_index index of
             Inl e \<Rightarrow> ([Acquire i_try p, Decode i_try index], Raise e)
           | Inr it \<Rightarrow> ([Acquire i_try p, Decode i_try index], Return it))))))"

text \<open>
  The \<^verbatim>\<open>for\<close> loop over the attempts that are left, with its \<^verbatim>\<open>else\<close> clause: the
  RuntimeError, whose message reads \<^verbatim>\<open>self._path_to_videos[index]\<close>.
\<close>

fun retry_loop ::
  "kinetics \<Rightarrow> ('c, 'f, 't) externals \<Rightarrow> sampling \<Rightarrow> nat list \<Rightarrow> int \<Rightarrow>
   event list \<times> (error + 't item)"
where
  "retry_loop ds ext sd [] index =
     ([], case py_get (path_to_videos ds) index of
            Inl e \<Rightarrow> Inl e
          | Inr p \<Rightarrow> Inl (RuntimeError p (num_retries ds)))"
| "retry_loop ds ext sd (i_try # rest) index =
     (case attempt ds ext sd i_try index of
        (evs, Continue index') \<Rightarrow>
          (case retry_loop ds ext sd rest index' of (evs', r) \<Rightarrow> (evs @ evs', r))
      | (evs, Return it) \<Rightarrow> (evs, Inr it)
      | (evs, Raise e) \<Rightarrow> (evs, Inl e))"

text \<open>\<^verbatim>\<open>Kinetics.__getitem__\<close>: the calls made and the item returned or the error raised.\<close>

definition getitem ::
  "kinetics \<Rightarrow> ('c, 'f, 't) externals \<Rightarrow> index_arg \<Rightarrow> event list \<times> (error + 't item)"
where
  "getitem ds ext arg =
     (case unpack_index arg of
        (index, short_cycle_idx) \<Rightarrow>
          (case resolve_sampling ds ext index short_cycle_idx of
             Inl e \<Rightarrow> ([], Inl e)
           | Inr sd \<Rightarrow> retry_loop ds ext sd (py_range (num_retries ds)) index))"

section \<open>Auxiliary definitions\<close>

text \<open>Reading a trace: the paths of the acquisition attempts, in order.\<close>

fun acquired_paths :: "event list \<Rightarrow> string list" where
  "acquired_paths [] = []"
| "acquired_paths (Acquire i p # evs) = p # acquired_paths evs"
| "acquired_paths (e # evs) = acquired_paths evs"

text \<open>The replacement policy ran: it drew a random index or printed the test-mode warning.\<close>

fun is_replacement :: "event \<Rightarrow> bool" where
  "is_replacement (Randint a b) = True"
| "is_replacement Print = True"
| "is_replacement e = False"

definition replaced :: "event list \<Rightarrow> bool" where
  "replaced evs = list_ex is_replacement evs"

text \<open>
  Attempt \<open>i_try\<close> on candidate \<open>index\<close> fails: the acquisition gives no container, or the
  decoder is called and gives no frames.
\<close>

definition attempt_fails ::
  "kinetics \<Rightarrow> ('c, 'f, 't) externals \<Rightarrow> sampling \<Rightarrow> nat \<Rightarrow> int \<Rightarrow> bool"
where
  "attempt_fails ds ext sd i_try index =
     (case py_get (path_to_videos ds) index of
        Inl e \<Rightarrow> False
      | Inr p \<Rightarrow>
          (case get_video_container ext i_try p of
             None \<Rightarrow> True
           | Some video_container \<Rightarrow>
               (case video_meta ds index of
                  None \<Rightarrow> False
                | Some m \<Rightarrow>
                    decode ext i_try video_container (temporal_sample_index sd) index
                      (min_scale sd) = None)))"

text \<open>
  The candidate index after the attempts of a list have all failed, starting from
  \<open>index\<close>: the replacement step of each attempt in turn.
\<close>

fun candidate :: "kinetics \<Rightarrow> ('c, 'f, 't) externals \<Rightarrow> nat list \<Rightarrow> int \<Rightarrow> int" where
  "candidate ds ext [] index = index"
| "candidate ds ext (i_try # rest) index =
     candidate ds ext rest
       (case snd (replacement ds ext i_try index) of Inl e \<Rightarrow> index | Inr index' \<Rightarrow> index')"

text \<open>The labels and the indices an item carries.\<close>

fun item_labels :: "'t item \<Rightarrow> int list" where
  "item_labels (Single frames label index) = [label]"
| "item_labels (Multi frame_list label_list index_list) = label_list"

fun item_indices :: "'t item \<Rightarrow> int list" where
  "item_indices (Single frames label index) = [index]"
| "item_indices (Multi frame_list label_list index_list) = index_list"

fun item_frames :: "'t item \<Rightarrow> 't list" where
  "item_frames (Single frames label index) = [frames]"
| "item_frames (Multi frame_list label_list index_list) = frame_list"

section \<open>Example configurations\<close>

definition ex_cfg :: cfg_node where
  "ex_cfg =
     \<lparr>DATA_PATH_LABEL_SEPARATOR = '','', DATA_PATH_PREFIX = ''data'',
      DATA_TRAIN_JITTER_SCALES = [256, 320], DATA_TRAIN_CROP_SIZE = 224,
      DATA_TEST_CROP_SIZE = 224,
      DATA_TRAIN_JITTER_SCALES_RELATIVE = [], DATA_TRAIN_JITTER_ASPECT_RELATIVE = [],
      DATA_TRAIN_JITTER_MOTION_SHIFT = False,
      TEST_NUM_ENSEMBLE_VIEWS = 2, TEST_NUM_SPATIAL_CROPS = 3,
      MULTIGRID_SHORT_CYCLE_FACTORS = [1 / 2, 7 / 10], MULTIGRID_DEFAULT_S = 0,
      AUG_ENABLE = False, AUG_NUM_SAMPLE = 1, AUG_RE_PROB = 0\<rparr>"

text \<open>
  Collaborators for the examples: tensors are the terms of the kernels applied to them,
  rounding is exact rounding to the nearest integer, halves to the even one, and every
  acquisition fails.
\<close>

definition py_round :: "real \<Rightarrow> int" where
  "py_round x =
     (let f = \<lfloor>x\<rfloor> in
      if x - of_int f < 1 / 2 then f
      else if 1 / 2 < x - of_int f then f + 1
      else if even f then f else f + 1)"

datatype ex_tensor =
    Clip nat
  | Augmented nat ex_tensor
  | Normalized ex_tensor
  | Permuted ex_tensor "nat list"
  | Sampled nat ex_tensor int int int int "real list option" "real list option" bool
  | Erased nat ex_tensor
  | Packed ex_tensor "int list option"

definition ex_ext :: "(string, ex_tensor, ex_tensor) externals" where
  "ex_ext =
     \<lparr>os_path_join = (\<lambda>a b. a @ ''/'' @ b),
      py_int = (\<lambda>s. if s = ''7'' then Some 7 else if s = ''3'' then Some 3 else None),
      round_mul = (\<lambda>f s. py_round (f * of_int s)),
      round_muldiv = (\<lambda>a b s. py_round (of_int a * of_int b / of_int s)),
      get_video_container = (\<lambda>i p. None),
      decode = (\<lambda>i c t k s. None),
      rand = (\<lambda>i. 1),
      random_augment = Augmented,
      tensor_normalize = Normalized,
      permute = Permuted,
      spatial_sampling = Sampled,
      random_erasing = Erased,
      pack_pathway_output = Packed\<rparr>"

text \<open>
  Collaborators for which only the video \<^verbatim>\<open>data/b.mp4\<close> can be opened; it decodes to the
  clip numbered by the key of its metadata slot.
\<close>

definition ex_ext_b :: "(string, ex_tensor, ex_tensor) externals" where
  "ex_ext_b =
     ex_ext\<lparr>get_video_container := (\<lambda>i p. if p = ''data/b.mp4'' then Some p else None),
            decode := (\<lambda>i c t k s. Some (Clip (nat k), [0, 2, 4, 6]))\<rparr>"

text \<open>
  Configurations: a multigrid default scale, one spatial crop, a single test clip, and
  policy augmentation with two samples and random erasing.
\<close>

definition ex_cfg_multigrid :: cfg_node where
  "ex_cfg_multigrid = ex_cfg\<lparr>MULTIGRID_DEFAULT_S := 224\<rparr>"

definition ex_cfg_center :: cfg_node where
  "ex_cfg_center = ex_cfg\<lparr>TEST_NUM_SPATIAL_CROPS := 1\<rparr>"

definition ex_cfg_single :: cfg_node where
  "ex_cfg_single = ex_cfg\<lparr>TEST_NUM_ENSEMBLE_VIEWS := 1, TEST_NUM_SPATIAL_CROPS := 1\<rparr>"

definition ex_cfg_aug :: cfg_node where
  "ex_cfg_aug = ex_cfg\<lparr>AUG_ENABLE := True, AUG_NUM_SAMPLE := 2, AUG_RE_PROB := 1 / 4\<rparr>"

text \<open>
  The datasets of the examples, each the object that the constructor returns for the
  manifest named (lemmas \<open>ds_..._init\<close>).
\<close>

text \<open>The line \<^verbatim>\<open>videos/a.mp4,7\<close> in test mode, two views, three crops.\<close>

definition ds_test :: kinetics where
  "ds_test =
     \<lparr>mode = ''test'', cfg = ex_cfg,
      video_meta = [0 \<mapsto> (), 1 \<mapsto> (), 2 \<mapsto> (), 3 \<mapsto> (), 4 \<mapsto> (), 5 \<mapsto> ()],
      num_retries = 20, num_clips = 6,
      path_to_videos = [''data/videos/a.mp4'', ''data/videos/a.mp4'', ''data/videos/a.mp4'', ''data/videos/a.mp4'', ''data/videos/a.mp4'', ''data/videos/a.mp4''],
      labels = [7, 7, 7, 7, 7, 7], spatial_temporal_idx = [0, 1, 2, 3, 4, 5],
      aug = False, rand_erase = False\<rparr>"

text \<open>The same line in test mode with a single spatial crop (two views).\<close>

definition ds_center :: kinetics where
  "ds_center =
     \<lparr>mode = ''test'', cfg = ex_cfg_center,
      video_meta = [0 \<mapsto> (), 1 \<mapsto> ()],
      num_retries = 20, num_clips = 2,
      path_to_videos = [''data/videos/a.mp4'', ''data/videos/a.mp4''],
      labels = [7, 7], spatial_temporal_idx = [0, 1],
      aug = False, rand_erase = False\<rparr>"

text \<open>The same line in test mode with a single clip, twenty retries.\<close>

definition ds_single :: kinetics where
  "ds_single =
     \<lparr>mode = ''test'', cfg = ex_cfg_single,
      video_meta = [0 \<mapsto> ()],
      num_retries = 20, num_clips = 1,
      path_to_videos = [''data/videos/a.mp4''],
      labels = [7], spatial_temporal_idx = [0],
      aug = False, rand_erase = False\<rparr>"

text \<open>The same line in test mode (six clips) with five retries.\<close>

definition ds_probe :: kinetics where
  "ds_probe =
     \<lparr>mode = ''test'', cfg = ex_cfg,
      video_meta = [0 \<mapsto> (), 1 \<mapsto> (), 2 \<mapsto> (), 3 \<mapsto> (), 4 \<mapsto> (), 5 \<mapsto> ()],
      num_retries = 5, num_clips = 6,
      path_to_videos = [''data/videos/a.mp4'', ''data/videos/a.mp4'', ''data/videos/a.mp4'', ''data/videos/a.mp4'', ''data/videos/a.mp4'', ''data/videos/a.mp4''],
      labels = [7, 7, 7, 7, 7, 7], spatial_temporal_idx = [0, 1, 2, 3, 4, 5],
      aug = False, rand_erase = False\<rparr>"

text \<open>Two videos in train mode, three retries, a multigrid default scale of 224.\<close>

definition ds_train :: kinetics where
  "ds_train =
     \<lparr>mode = ''train'', cfg = ex_cfg_multigrid,
      video_meta = [0 \<mapsto> (), 1 \<mapsto> ()],
      num_retries = 3, num_clips = 1,
      path_to_videos = [''data/a.mp4'', ''data/b.mp4''],
      labels = [7, 3], spatial_temporal_idx = [0, 0],
      aug = False, rand_erase = False\<rparr>"

text \<open>Two videos in train mode, five retries.\<close>

definition ds_five :: kinetics where
  "ds_five =
     \<lparr>mode = ''train'', cfg = ex_cfg,
      video_meta = [0 \<mapsto> (), 1 \<mapsto> ()],
      num_retries = 5, num_clips = 1,
      path_to_videos = [''data/a.mp4'', ''data/b.mp4''],
      labels = [7, 3], spatial_temporal_idx = [0, 0],
      aug = False, rand_erase = False\<rparr>"

text \<open>Two videos in train mode with policy augmentation.\<close>

definition ds_aug :: kinetics where
  "ds_aug =
     \<lparr>mode = ''train'', cfg = ex_cfg_aug,
      video_meta = [0 \<mapsto> (), 1 \<mapsto> ()],
      num_retries = 5, num_clips = 1,
      path_to_videos = [''data/a.mp4'', ''data/b.mp4''],
      labels = [7, 3], spatial_temporal_idx = [0, 0],
      aug = True, rand_erase = True\<rparr>"


text \<open>
  What \<^verbatim>\<open>_aug_frame\<close> makes of the clip of slot 1 under \<open>ds_aug\<close> at draw \<open>k\<close>, and what the
  branch without augmentation makes of it in train and val mode.
\<close>

definition ex_aug :: "nat \<Rightarrow> ex_tensor" where
  "ex_aug k =
     Permuted
       (Erased k
          (Permuted
             (Sampled k
                (Permuted
                   (Normalized
                      (Permuted (Augmented k (Permuted (Clip 1) [0, 3, 1, 2])) [0, 2, 3, 1]))
                   [3, 0, 1, 2])
                (- 1) 256 320 224 None None False)
             [1, 0, 2, 3]))
       [1, 0, 2, 3]"



section \<open>Construction: manifest expansion\<close>

lemma clips_loop_frame:
  "clips_loop ext ci path label ds idxs = Inr ds' \<Longrightarrow>
     mode ds' = mode ds \<and> cfg ds' = cfg ds \<and> num_retries ds' = num_retries ds \<and>
     num_clips ds' = num_clips ds \<and> aug ds' = aug ds \<and> rand_erase ds' = rand_erase ds"
  by (induction idxs arbitrary: ds) (auto split: option.splits)

lemma clips_loop_paths:
  "clips_loop ext ci path label ds idxs = Inr ds' \<Longrightarrow>
     path_to_videos ds' =
       path_to_videos ds @
       replicate (length idxs) (os_path_join ext (DATA_PATH_PREFIX (cfg ds)) path)"
  by (induction idxs arbitrary: ds) (auto split: option.splits simp: replicate_app_Cons_same)

lemma clips_loop_labels:
  "clips_loop ext ci path label ds idxs = Inr ds' \<Longrightarrow>
     labels ds' = labels ds @ replicate (length idxs) (the (py_int ext label)) \<and>
     (idxs \<noteq> [] \<longrightarrow> py_int ext label \<noteq> None)"
  by (induction idxs arbitrary: ds) (auto split: option.splits simp: replicate_app_Cons_same)

lemma clips_loop_idx:
  "clips_loop ext ci path label ds idxs = Inr ds' \<Longrightarrow>
     spatial_temporal_idx ds' = spatial_temporal_idx ds @ map int idxs"
  by (induction idxs arbitrary: ds) (auto split: option.splits)

lemma clips_loop_meta:
  "clips_loop ext ci path label ds idxs = Inr ds' \<Longrightarrow>
     dom (video_meta ds') =
       dom (video_meta ds) \<union> (\<lambda>idx. int ci * num_clips ds + int idx) ` set idxs"
  by (induction idxs arbitrary: ds) (auto split: option.splits)

lemma nth_concat_blocks:
  "\<forall>x\<in>set xs. length (f x) = c \<Longrightarrow> i < length xs \<Longrightarrow> k < c \<Longrightarrow>
     concat (map f xs) ! (i * c + k) = f (xs ! i) ! k"
proof (induction xs arbitrary: i)
  case Nil
  then show ?case by simp
next
  case (Cons x xs)
  show ?case
  proof (cases i)
    case 0
    with Cons.prems show ?thesis by (simp add: nth_append)
  next
    case (Suc j)
    with Cons.prems have "concat (map f xs) ! (j * c + k) = f (xs ! j) ! k"
      by (intro Cons.IH) auto
    with Suc Cons.prems show ?thesis by (simp add: nth_append add.assoc)
  qed
qed

lemma length_concat_blocks:
  "\<forall>x\<in>set xs. length (f x) = c \<Longrightarrow> length (concat (map f xs)) = length xs * c"
  by (induction xs) auto


lemma lines_loop_frame:
  "lines_loop ext ds ci rest = Inr ds' \<Longrightarrow>
     mode ds' = mode ds \<and> cfg ds' = cfg ds \<and> num_retries ds' = num_retries ds \<and>
     num_clips ds' = num_clips ds \<and> aug ds' = aug ds \<and> rand_erase ds' = rand_erase ds"
proof (induction rest arbitrary: ds ci)
  case Nil
  then show ?case by simp
next
  case (Cons l rest)
  from Cons.prems obtain parts ds1 where
    c: "clips_loop ext ci (parts ! 0) (parts ! 1) ds (py_range (num_clips ds)) = Inr ds1"
    and r: "lines_loop ext ds1 (Suc ci) rest = Inr ds'"
    by (auto split: sum.splits if_splits)
  from clips_loop_frame [OF c] Cons.IH [OF r] show ?case by simp
qed

lemma lines_loop_fields:
  "lines_loop ext ds ci rest = Inr ds' \<Longrightarrow> l \<in> set rest \<Longrightarrow>
     DATA_PATH_LABEL_SEPARATOR (cfg ds) \<noteq> [] \<and>
     length (split_from (DATA_PATH_LABEL_SEPARATOR (cfg ds)) [] l) = 2 \<and>
     (0 < num_clips ds \<longrightarrow>
        py_int ext (split_from (DATA_PATH_LABEL_SEPARATOR (cfg ds)) [] l ! 1) \<noteq> None)"
proof (induction rest arbitrary: ds ci)
  case Nil
  then show ?case by simp
next
  case (Cons l0 rest)
  let ?parts = "split_from (DATA_PATH_LABEL_SEPARATOR (cfg ds)) [] l0"
  from Cons.prems(1) have sep: "DATA_PATH_LABEL_SEPARATOR (cfg ds) \<noteq> []"
    and len: "length ?parts = 2"
    by (auto simp: str_split_def split: sum.splits if_splits)
  from Cons.prems(1) sep len obtain ds1 where
    c: "clips_loop ext ci (?parts ! 0) (?parts ! 1) ds (py_range (num_clips ds)) = Inr ds1"
    and r: "lines_loop ext ds1 (Suc ci) rest = Inr ds'"
    by (auto simp: str_split_def split: sum.splits if_splits)
  have fr: "cfg ds1 = cfg ds" "num_clips ds1 = num_clips ds"
    using clips_loop_frame [OF c] by simp_all
  show ?case
  proof (cases "l = l0")
    case True
    have "0 < num_clips ds \<Longrightarrow> py_range (num_clips ds) \<noteq> []"
      by (simp add: py_range_def)
    with clips_loop_labels [OF c] sep len True show ?thesis by simp
  next
    case False
    with Cons.prems(2) have "l \<in> set rest" by simp
    from Cons.IH [OF r this] fr show ?thesis by simp
  qed
qed

lemma lines_loop_paths:
  "lines_loop ext ds ci rest = Inr ds' \<Longrightarrow>
     path_to_videos ds' =
       path_to_videos ds @
       concat (map (\<lambda>l. replicate (nat (num_clips ds))
                     (os_path_join ext (DATA_PATH_PREFIX (cfg ds))
                        (split_from (DATA_PATH_LABEL_SEPARATOR (cfg ds)) [] l ! 0))) rest)"
proof (induction rest arbitrary: ds ci)
  case Nil
  then show ?case by simp
next
  case (Cons l0 rest)
  let ?parts = "split_from (DATA_PATH_LABEL_SEPARATOR (cfg ds)) [] l0"
  from Cons.prems obtain ds1 where
    c: "clips_loop ext ci (?parts ! 0) (?parts ! 1) ds (py_range (num_clips ds)) = Inr ds1"
    and r: "lines_loop ext ds1 (Suc ci) rest = Inr ds'"
    by (auto simp: str_split_def split: sum.splits if_splits)
  have fr: "cfg ds1 = cfg ds" "num_clips ds1 = num_clips ds"
    using clips_loop_frame [OF c] by simp_all
  from clips_loop_paths [OF c] Cons.IH [OF r] fr show ?case
    by (simp add: py_range_def)
qed

lemma lines_loop_labels:
  "lines_loop ext ds ci rest = Inr ds' \<Longrightarrow>
     labels ds' =
       labels ds @
       concat (map (\<lambda>l. replicate (nat (num_clips ds))
                     (the (py_int ext
                        (split_from (DATA_PATH_LABEL_SEPARATOR (cfg ds)) [] l ! 1)))) rest)"
proof (induction rest arbitrary: ds ci)
  case Nil
  then show ?case by simp
next
  case (Cons l0 rest)
  let ?parts = "split_from (DATA_PATH_LABEL_SEPARATOR (cfg ds)) [] l0"
  from Cons.prems obtain ds1 where
    c: "clips_loop ext ci (?parts ! 0) (?parts ! 1) ds (py_range (num_clips ds)) = Inr ds1"
    and r: "lines_loop ext ds1 (Suc ci) rest = Inr ds'"
    by (auto simp: str_split_def split: sum.splits if_splits)
  have fr: "cfg ds1 = cfg ds" "num_clips ds1 = num_clips ds"
    using clips_loop_frame [OF c] by simp_all
  from clips_loop_labels [OF c] Cons.IH [OF r] fr show ?case
    by (simp add: py_range_def)
qed

lemma lines_loop_idx:
  "lines_loop ext ds ci rest = Inr ds' \<Longrightarrow>
     spatial_temporal_idx ds' =
       spatial_temporal_idx ds @
       concat (map (\<lambda>l. map int [0..<nat (num_clips ds)]) rest)"
proof (induction rest arbitrary: ds ci)
  case Nil
  then show ?case by simp
next
  case (Cons l0 rest)
  let ?parts = "split_from (DATA_PATH_LABEL_SEPARATOR (cfg ds)) [] l0"
  from Cons.prems obtain ds1 where
    c: "clips_loop ext ci (?parts ! 0) (?parts ! 1) ds (py_range (num_clips ds)) = Inr ds1"
    and r: "lines_loop ext ds1 (Suc ci) rest = Inr ds'"
    by (auto simp: str_split_def split: sum.splits if_splits)
  have fr: "cfg ds1 = cfg ds" "num_clips ds1 = num_clips ds"
    using clips_loop_frame [OF c] by simp_all
  from clips_loop_idx [OF c] Cons.IH [OF r] fr show ?case
    by (simp add: py_range_def)
qed

lemma clip_keys_block:
  "0 < (c::int) \<Longrightarrow>
     (\<lambda>idx. int ci * c + int idx) ` {0..<nat c} = {int ci * c ..< (int ci + 1) * c}"
proof (intro set_eqI iffI)
  fix k assume "k \<in> (\<lambda>idx. int ci * c + int idx) ` {0..<nat c}"
  then show "k \<in> {int ci * c ..< (int ci + 1) * c}"
    by (auto simp: algebra_simps)
next
  fix k assume k: "k \<in> {int ci * c ..< (int ci + 1) * c}" and c: "0 < c"
  then have "nat (k - int ci * c) \<in> {0..<nat c}" "k = int ci * c + int (nat (k - int ci * c))"
    by (auto simp: algebra_simps)
  then show "k \<in> (\<lambda>idx. int ci * c + int idx) ` {0..<nat c}"
    by (rule_tac rev_image_eqI)
qed

lemma lines_loop_meta:
  "lines_loop ext ds ci rest = Inr ds' \<Longrightarrow> 0 < num_clips ds \<Longrightarrow>
     dom (video_meta ds') =
       dom (video_meta ds) \<union>
       {int ci * num_clips ds ..< (int ci + int (length rest)) * num_clips ds}"
proof (induction rest arbitrary: ds ci)
  case Nil
  then show ?case by simp
next
  case (Cons l0 rest)
  let ?parts = "split_from (DATA_PATH_LABEL_SEPARATOR (cfg ds)) [] l0"
  let ?c = "num_clips ds"
  from Cons.prems(1) obtain ds1 where
    c: "clips_loop ext ci (?parts ! 0) (?parts ! 1) ds (py_range (num_clips ds)) = Inr ds1"
    and r: "lines_loop ext ds1 (Suc ci) rest = Inr ds'"
    by (auto simp: str_split_def split: sum.splits if_splits)
  have fr: "num_clips ds1 = ?c"
    using clips_loop_frame [OF c] by simp
  have m1: "dom (video_meta ds1) = dom (video_meta ds) \<union> {int ci * ?c ..< (int ci + 1) * ?c}"
    using clips_loop_meta [OF c] clip_keys_block [OF Cons.prems(2), of ci]
    by (simp add: py_range_def)
  have m2: "dom (video_meta ds') =
      dom (video_meta ds1) \<union> {int (Suc ci) * ?c ..< (int (Suc ci) + int (length rest)) * ?c}"
    using Cons.IH [OF r] Cons.prems(2) fr by simp
  have "{int ci * ?c ..< (int ci + 1) * ?c} \<union>
        {int (Suc ci) * ?c ..< (int (Suc ci) + int (length rest)) * ?c} =
        {int ci * ?c ..< (int ci + int (length (l0 # rest))) * ?c}"
  proof -
    have "int ci * ?c \<le> (int ci + 1) * ?c" "(int ci + 1) * ?c \<le> (int ci + 1 + int (length rest)) * ?c"
      using Cons.prems(2) by (simp_all add: algebra_simps)
    then have "{int ci * ?c ..< (int ci + 1) * ?c} \<union>
        {(int ci + 1) * ?c ..< (int ci + 1 + int (length rest)) * ?c} =
        {int ci * ?c ..< (int ci + 1 + int (length rest)) * ?c}"
      by (rule ivl_disj_un_two(3))
    then show ?thesis by (simp add: algebra_simps)
  qed
  with m1 m2 show ?case by (simp add: Un_assoc)
qed

lemma init_Inr:
  assumes "init ext c m n file = Inr ds"
  obtains lns ds1 where "file = Some lns"
    and "m = ''train'' \<or> m = ''val'' \<or> m = ''test''"
    and "lines_loop ext (initial c m n) 0 lns = Inr ds1"
    and "path_to_videos ds1 \<noteq> []"
    and "ds = (if m = ''train'' \<and> AUG_ENABLE c
               then ds1\<lparr>aug := True, rand_erase := (0 < AUG_RE_PROB c)\<rparr> else ds1)"
  using assms
  by (auto simp: init_def initial_def construct_loader_def
           split: if_splits sum.splits option.splits)

lemma init_fields:
  assumes "init ext c m n file = Inr ds"
  shows "mode ds = m" and "cfg ds = c" and "num_retries ds = n"
    and "num_clips ds = (if m = ''train'' \<or> m = ''val'' then 1
                         else TEST_NUM_ENSEMBLE_VIEWS c * TEST_NUM_SPATIAL_CROPS c)"
    and "aug ds = (m = ''train'' \<and> AUG_ENABLE c)"
    and "rand_erase ds = (m = ''train'' \<and> AUG_ENABLE c \<and> 0 < AUG_RE_PROB c)"
    and "m = ''train'' \<or> m = ''val'' \<or> m = ''test''"
proof -
  from assms obtain lns ds1 where m: "m = ''train'' \<or> m = ''val'' \<or> m = ''test''"
    and l: "lines_loop ext (initial c m n) 0 lns = Inr ds1"
    and d: "ds = (if m = ''train'' \<and> AUG_ENABLE c
               then ds1\<lparr>aug := True, rand_erase := (0 < AUG_RE_PROB c)\<rparr> else ds1)"
    by (rule init_Inr)
  from lines_loop_frame [OF l] have
    f: "mode ds1 = m" "cfg ds1 = c" "num_retries ds1 = n"
      "num_clips ds1 = (if m = ''train'' \<or> m = ''val'' then 1
                         else TEST_NUM_ENSEMBLE_VIEWS c * TEST_NUM_SPATIAL_CROPS c)"
      "aug ds1 = False" "rand_erase ds1 = False"
    by (simp_all add: initial_def)
  from f d show "mode ds = m" by simp
  from f d show "cfg ds = c" by simp
  from f d show "num_retries ds = n" by simp
  from f d show "num_clips ds = (if m = ''train'' \<or> m = ''val'' then 1
                         else TEST_NUM_ENSEMBLE_VIEWS c * TEST_NUM_SPATIAL_CROPS c)" by simp
  from f d show "aug ds = (m = ''train'' \<and> AUG_ENABLE c)" by simp
  from f d show "rand_erase ds = (m = ''train'' \<and> AUG_ENABLE c \<and> 0 < AUG_RE_PROB c)" by auto
  from m show "m = ''train'' \<or> m = ''val'' \<or> m = ''test''" .
qed

lemma init_lists:
  assumes "init ext c m n (Some lns) = Inr ds"
  shows "path_to_videos ds =
           concat (map (\<lambda>l. replicate (nat (num_clips ds))
                     (os_path_join ext (DATA_PATH_PREFIX c)
                        (split_from (DATA_PATH_LABEL_SEPARATOR c) [] l ! 0))) lns)"
    and "labels ds =
           concat (map (\<lambda>l. replicate (nat (num_clips ds))
                     (the (py_int ext (split_from (DATA_PATH_LABEL_SEPARATOR c) [] l ! 1)))) lns)"
    and "spatial_temporal_idx ds = concat (map (\<lambda>l. map int [0..<nat (num_clips ds)]) lns)"
    and "path_to_videos ds \<noteq> []"
    and "\<And>l. l \<in> set lns \<Longrightarrow>
           DATA_PATH_LABEL_SEPARATOR c \<noteq> [] \<and>
           length (split_from (DATA_PATH_LABEL_SEPARATOR c) [] l) = 2 \<and>
           (0 < num_clips ds \<longrightarrow>
              py_int ext (split_from (DATA_PATH_LABEL_SEPARATOR c) [] l ! 1) \<noteq> None)"
    and "0 < num_clips ds \<Longrightarrow>
           dom (video_meta ds) = {0 ..< int (length lns) * num_clips ds}"
proof -
  from assms obtain lns' ds1 where s: "Some lns = Some lns'"
    and l': "lines_loop ext (initial c m n) 0 lns' = Inr ds1"
    and ne: "path_to_videos ds1 \<noteq> []"
    and d: "ds = (if m = ''train'' \<and> AUG_ENABLE c
               then ds1\<lparr>aug := True, rand_erase := (0 < AUG_RE_PROB c)\<rparr> else ds1)"
    by (rule init_Inr)
  from s l' have l: "lines_loop ext (initial c m n) 0 lns = Inr ds1" by simp
  have i: "cfg (initial c m n) = c" "path_to_videos (initial c m n) = []"
    "labels (initial c m n) = []" "spatial_temporal_idx (initial c m n) = []"
    "video_meta (initial c m n) = Map.empty"
    by (simp_all add: initial_def)
  have nc: "num_clips (initial c m n) = num_clips ds"
    using lines_loop_frame [OF l] d by simp
  have same: "path_to_videos ds = path_to_videos ds1" "labels ds = labels ds1"
    "spatial_temporal_idx ds = spatial_temporal_idx ds1" "video_meta ds = video_meta ds1"
    using d by simp_all
  from lines_loop_paths [OF l] i nc same
  show "path_to_videos ds =
           concat (map (\<lambda>l. replicate (nat (num_clips ds))
                     (os_path_join ext (DATA_PATH_PREFIX c)
                        (split_from (DATA_PATH_LABEL_SEPARATOR c) [] l ! 0))) lns)"
    by simp
  from lines_loop_labels [OF l] i nc same
  show "labels ds =
           concat (map (\<lambda>l. replicate (nat (num_clips ds))
                     (the (py_int ext (split_from (DATA_PATH_LABEL_SEPARATOR c) [] l ! 1)))) lns)"
    by simp
  from lines_loop_idx [OF l] i nc same
  show "spatial_temporal_idx ds = concat (map (\<lambda>l. map int [0..<nat (num_clips ds)]) lns)"
    by simp
  from ne same show "path_to_videos ds \<noteq> []" by simp
  show "\<And>l. l \<in> set lns \<Longrightarrow>
           DATA_PATH_LABEL_SEPARATOR c \<noteq> [] \<and>
           length (split_from (DATA_PATH_LABEL_SEPARATOR c) [] l) = 2 \<and>
           (0 < num_clips ds \<longrightarrow>
              py_int ext (split_from (DATA_PATH_LABEL_SEPARATOR c) [] l ! 1) \<noteq> None)"
    using lines_loop_fields [OF l] i nc by simp
  show "0 < num_clips ds \<Longrightarrow>
           dom (video_meta ds) = {0 ..< int (length lns) * num_clips ds}"
    using lines_loop_meta [OF l] i nc same by simp
qed

lemma init_sizes:
  assumes "init ext c m n (Some lns) = Inr ds"
  shows "0 < num_clips ds" and "lns \<noteq> []"
    and "length (path_to_videos ds) = length lns * nat (num_clips ds)"
    and "length (labels ds) = length lns * nat (num_clips ds)"
    and "length (spatial_temporal_idx ds) = length lns * nat (num_clips ds)"
    and "dom (video_meta ds) = {0 ..< int (length (path_to_videos ds))}"
proof -
  note L = init_lists [OF assms]
  have lp: "length (path_to_videos ds) = length lns * nat (num_clips ds)"
    by (subst L(1)) (simp add: length_concat_blocks)
  from L(4) lp show pos: "0 < num_clips ds" by (cases "0 < num_clips ds") auto
  from L(4) lp show "lns \<noteq> []" by auto
  from lp show "length (path_to_videos ds) = length lns * nat (num_clips ds)" .
  show "length (labels ds) = length lns * nat (num_clips ds)"
    by (subst L(2)) (simp add: length_concat_blocks)
  show "length (spatial_temporal_idx ds) = length lns * nat (num_clips ds)"
    by (subst L(3)) (simp add: length_concat_blocks)
  from L(6) [OF pos] lp pos show "dom (video_meta ds) = {0 ..< int (length (path_to_videos ds))}"
    by simp
qed

text \<open>The example datasets are what the constructor returns.\<close>

lemmas ex_cfg_defs =
  ex_cfg_def ex_cfg_multigrid_def ex_cfg_center_def ex_cfg_single_def ex_cfg_aug_def

lemma ds_test_init:
  "init ex_ext ex_cfg ''test'' 20 (Some [''videos/a.mp4,7'']) = Inr ds_test"
  by (simp add: ds_test_def init_def initial_def construct_loader_def str_split_def py_range_def
        ex_ext_def ex_cfg_defs upt_rec)

lemma ds_center_init:
  "init ex_ext ex_cfg_center ''test'' 20 (Some [''videos/a.mp4,7'']) = Inr ds_center"
  by (simp add: ds_center_def init_def initial_def construct_loader_def str_split_def py_range_def
        ex_ext_def ex_cfg_defs upt_rec)

lemma ds_single_init:
  "init ex_ext ex_cfg_single ''test'' 20 (Some [''videos/a.mp4,7'']) = Inr ds_single"
  by (simp add: ds_single_def init_def initial_def construct_loader_def str_split_def py_range_def
        ex_ext_def ex_cfg_defs upt_rec)

lemma ds_probe_init:
  "init ex_ext ex_cfg ''test'' 5 (Some [''videos/a.mp4,7'']) = Inr ds_probe"
  by (simp add: ds_probe_def init_def initial_def construct_loader_def str_split_def py_range_def
        ex_ext_def ex_cfg_defs upt_rec)

lemma ds_train_init:
  "init ex_ext ex_cfg_multigrid ''train'' 3 (Some [''a.mp4,7'', ''b.mp4,3'']) = Inr ds_train"
  by (simp add: ds_train_def init_def initial_def construct_loader_def str_split_def py_range_def
        ex_ext_def ex_cfg_defs upt_rec)

lemma ds_five_init:
  "init ex_ext ex_cfg ''train'' 5 (Some [''a.mp4,7'', ''b.mp4,3'']) = Inr ds_five"
  by (simp add: ds_five_def init_def initial_def construct_loader_def str_split_def py_range_def
        ex_ext_def ex_cfg_defs upt_rec)



text \<open>
  Claim C8. A dataset constructed from a manifest of \<open>N\<close> lines has \<open>N * num_clips\<close>
  logical entries, where \<open>num_clips\<close> is 1 in train and val mode and
  \<open>NUM_ENSEMBLE_VIEWS * NUM_SPATIAL_CROPS\<close> in test mode; the entries \<open>i * num_clips + k\<close>
  of line \<open>i\<close> carry the joined path and the label of that line and the values
  \<open>k = 0, ..., num_clips - 1\<close> of \<open>spatial_temporal_idx\<close>; \<^verbatim>\<open>__len__\<close> is \<open>N * num_clips\<close>. A line
  that does not split into two fields, and a manifest that expands to no entry, make the
  constructor raise.
\<close>

theorem manifest_expansion:
  "(init ext c m n (Some lns) = Inr ds \<longrightarrow>
      num_clips ds =
        (if m = ''test'' then TEST_NUM_ENSEMBLE_VIEWS c * TEST_NUM_SPATIAL_CROPS c else 1) \<and>
      length (path_to_videos ds) = length lns * nat (num_clips ds) \<and>
      length (labels ds) = length lns * nat (num_clips ds) \<and>
      length (spatial_temporal_idx ds) = length lns * nat (num_clips ds) \<and>
      len ds = int (length lns) * num_clips ds \<and>
      (\<forall>i<length lns. \<forall>k<nat (num_clips ds). \<exists>p lab.
          str_split (lns ! i) (DATA_PATH_LABEL_SEPARATOR c) = Inr [p, lab] \<and>
          path_to_videos ds ! (i * nat (num_clips ds) + k) =
            os_path_join ext (DATA_PATH_PREFIX c) p \<and>
          py_int ext lab = Some (labels ds ! (i * nat (num_clips ds) + k)) \<and>
          spatial_temporal_idx ds ! (i * nat (num_clips ds) + k) = int k)) \<and>
   ((\<exists>l\<in>set lns. \<forall>parts. str_split l (DATA_PATH_LABEL_SEPARATOR c) = Inr parts \<longrightarrow>
        length parts \<noteq> 2) \<longrightarrow>
      isl (init ext c m n (Some lns))) \<and>
   (int (length lns) *
      (if m = ''test'' then TEST_NUM_ENSEMBLE_VIEWS c * TEST_NUM_SPATIAL_CROPS c else 1) \<le> 0 \<longrightarrow>
      isl (init ext c m n (Some lns)))"
proof (intro conjI impI)
  assume a: "init ext c m n (Some lns) = Inr ds"
  note F = init_fields [OF a] and L = init_lists [OF a] and S = init_sizes [OF a]
  let ?c = "nat (num_clips ds)"
  from F(4) F(7) show "num_clips ds =
        (if m = ''test'' then TEST_NUM_ENSEMBLE_VIEWS c * TEST_NUM_SPATIAL_CROPS c else 1)"
    by auto
  from S show "length (path_to_videos ds) = length lns * ?c"
    and "length (labels ds) = length lns * ?c"
    and "length (spatial_temporal_idx ds) = length lns * ?c"
    by simp_all
  from S(1) S(3) show "len ds = int (length lns) * num_clips ds"
    by (simp add: len_def num_videos_def)
  show "\<forall>i<length lns. \<forall>k<?c. \<exists>p lab.
          str_split (lns ! i) (DATA_PATH_LABEL_SEPARATOR c) = Inr [p, lab] \<and>
          path_to_videos ds ! (i * ?c + k) = os_path_join ext (DATA_PATH_PREFIX c) p \<and>
          py_int ext lab = Some (labels ds ! (i * ?c + k)) \<and>
          spatial_temporal_idx ds ! (i * ?c + k) = int k"
  proof (intro allI impI)
    fix i k assume i: "i < length lns" and k: "k < ?c"
    let ?parts = "split_from (DATA_PATH_LABEL_SEPARATOR c) [] (lns ! i)"
    from i have mem: "lns ! i \<in> set lns" by simp
    from L(5) [OF mem] S(1) have sep: "DATA_PATH_LABEL_SEPARATOR c \<noteq> []"
      and two: "length ?parts = 2" and lab: "py_int ext (?parts ! 1) \<noteq> None"
      by simp_all
    from two have parts: "?parts = [?parts ! 0, ?parts ! 1]"
      by (cases ?parts; cases "tl ?parts") auto
    have 1: "str_split (lns ! i) (DATA_PATH_LABEL_SEPARATOR c) = Inr [?parts ! 0, ?parts ! 1]"
      using sep parts by (simp add: str_split_def)
    have 2: "path_to_videos ds ! (i * ?c + k) =
        os_path_join ext (DATA_PATH_PREFIX c) (?parts ! 0)"
      by (subst L(1), subst nth_concat_blocks [where c = ?c]) (use i k in simp_all)
    have "labels ds ! (i * ?c + k) = the (py_int ext (?parts ! 1))"
      by (subst L(2), subst nth_concat_blocks [where c = ?c]) (use i k in simp_all)
    with lab have 3: "py_int ext (?parts ! 1) = Some (labels ds ! (i * ?c + k))"
      by auto
    have 4: "spatial_temporal_idx ds ! (i * ?c + k) = int k"
      by (subst L(3), subst nth_concat_blocks [where c = ?c]) (use i k in simp_all)
    from 1 2 3 4 show "\<exists>p lab.
          str_split (lns ! i) (DATA_PATH_LABEL_SEPARATOR c) = Inr [p, lab] \<and>
          path_to_videos ds ! (i * ?c + k) = os_path_join ext (DATA_PATH_PREFIX c) p \<and>
          py_int ext lab = Some (labels ds ! (i * ?c + k)) \<and>
          spatial_temporal_idx ds ! (i * ?c + k) = int k"
      by blast
  qed
next
  assume b: "\<exists>l\<in>set lns. \<forall>parts. str_split l (DATA_PATH_LABEL_SEPARATOR c) = Inr parts \<longrightarrow>
        length parts \<noteq> 2"
  show "isl (init ext c m n (Some lns))"
  proof (cases "init ext c m n (Some lns)")
    case (Inl e)
    then show ?thesis by simp
  next
    case (Inr ds)
    from b obtain l where l: "l \<in> set lns"
      and n: "\<forall>parts. str_split l (DATA_PATH_LABEL_SEPARATOR c) = Inr parts \<longrightarrow> length parts \<noteq> 2"
      by blast
    from init_lists(5) [OF Inr l] have "DATA_PATH_LABEL_SEPARATOR c \<noteq> []"
      and "length (split_from (DATA_PATH_LABEL_SEPARATOR c) [] l) = 2"
      by simp_all
    with n show ?thesis by (simp add: str_split_def)
  qed
next
  assume e: "int (length lns) *
      (if m = ''test'' then TEST_NUM_ENSEMBLE_VIEWS c * TEST_NUM_SPATIAL_CROPS c else 1) \<le> 0"
  show "isl (init ext c m n (Some lns))"
  proof (cases "init ext c m n (Some lns)")
    case (Inl e)
    then show ?thesis by simp
  next
    case (Inr ds)
    note F = init_fields [OF Inr] and S = init_sizes [OF Inr]
    from F(4) F(7) have "num_clips ds =
        (if m = ''test'' then TEST_NUM_ENSEMBLE_VIEWS c * TEST_NUM_SPATIAL_CROPS c else 1)"
      by auto
    with e have "int (length lns) * num_clips ds \<le> 0" by simp
    moreover from S(1) S(2) have "0 < int (length lns) * num_clips ds" by simp
    ultimately show ?thesis by simp
  qed
qed

theorem manifest_expansion_witness:
  "init ex_ext ex_cfg ''test'' 20 (Some [''videos/a.mp4,7'']) = Inr ds_test \<and>
   len ds_test = 6 \<and>
   (\<exists>p lab. str_split ''videos/a.mp4,7'' '','' = Inr [p, lab] \<and>
      path_to_videos ds_test ! 4 = os_path_join ex_ext ''data'' p \<and>
      py_int ex_ext lab = Some (labels ds_test ! 4) \<and>
      spatial_temporal_idx ds_test ! 4 = 4) \<and>
   isl (init ex_ext ex_cfg ''train'' 20 (Some [''videos/a.mp4,7'', ''a,b,c''])) \<and>
   isl (init ex_ext ex_cfg ''val'' 20 (Some []))"
proof -
  note h = ds_test_init
  have c: "num_clips ds_test = 6"
    using manifest_expansion [of ex_ext ex_cfg "''test''" 20 "[''videos/a.mp4,7'']" ds_test] h
    by (simp add: ex_cfg_def)
  have 1: "len ds_test = 6"
    using manifest_expansion [of ex_ext ex_cfg "''test''" 20 "[''videos/a.mp4,7'']" ds_test] h c
    by simp
  have "\<forall>k<6. \<exists>p lab. str_split ''videos/a.mp4,7'' '','' = Inr [p, lab] \<and>
      path_to_videos ds_test ! k = os_path_join ex_ext ''data'' p \<and>
      py_int ex_ext lab = Some (labels ds_test ! k) \<and>
      spatial_temporal_idx ds_test ! k = int k"
    using manifest_expansion [of ex_ext ex_cfg "''test''" 20 "[''videos/a.mp4,7'']" ds_test] h c
    by (simp add: ex_cfg_def)
  then have 2: "\<exists>p lab. str_split ''videos/a.mp4,7'' '','' = Inr [p, lab] \<and>
      path_to_videos ds_test ! 4 = os_path_join ex_ext ''data'' p \<and>
      py_int ex_ext lab = Some (labels ds_test ! 4) \<and>
      spatial_temporal_idx ds_test ! 4 = 4"
    by (drule_tac x = 4 in spec) simp
  have b: "\<exists>l\<in>set [''videos/a.mp4,7'', ''a,b,c''].
      \<forall>parts. str_split l (DATA_PATH_LABEL_SEPARATOR ex_cfg) = Inr parts \<longrightarrow> length parts \<noteq> 2"
    by (simp add: str_split_def ex_cfg_def)
  have 3: "isl (init ex_ext ex_cfg ''train'' 20 (Some [''videos/a.mp4,7'', ''a,b,c'']))"
    using manifest_expansion [of ex_ext ex_cfg "''train''" 20 "[''videos/a.mp4,7'', ''a,b,c'']"] b
    by blast
  have 4: "isl (init ex_ext ex_cfg ''val'' 20 (Some []))"
    using manifest_expansion [of ex_ext ex_cfg "''val''" 20 "[]"]
    by simp
  from h 1 2 3 4 show ?thesis by blast
qed

section \<open>The sampling resolver\<close>

lemma py_get_nth: "0 \<le> i \<Longrightarrow> i < int (length xs) \<Longrightarrow> py_get xs i = Inr (xs ! nat i)"
  by (simp add: py_get_def)

lemma py_get_Inr_length: "py_get xs i = Inr x \<Longrightarrow> 0 \<le> i \<Longrightarrow> i < int (length xs) \<and> x = xs ! nat i"
  by (auto simp: py_get_def split: if_splits)

text \<open>
  Claim C4. In train and val mode the resolved sampling has temporal and spatial sample
  index \<open>-1\<close> (random sampling), whatever the configuration, the index and the short-cycle
  index; and it is resolved whenever the jitter scales and the short-cycle factors have
  their two entries.
\<close>

theorem train_val_random_sampling:
  assumes "mode ds = ''train'' \<or> mode ds = ''val''"
  shows "(\<forall>sd. resolve_sampling ds ext index short_cycle_idx = Inr sd \<longrightarrow>
            temporal_sample_index sd = - 1 \<and> spatial_sample_index sd = - 1) \<and>
         (2 \<le> length (DATA_TRAIN_JITTER_SCALES (cfg ds)) \<and>
          2 \<le> length (MULTIGRID_SHORT_CYCLE_FACTORS (cfg ds)) \<longrightarrow>
            (\<exists>sd. resolve_sampling ds ext index short_cycle_idx = Inr sd))"
proof -
  have 1: "temporal_sample_index sd = - 1 \<and> spatial_sample_index sd = - 1"
    if "resolve_sampling ds ext index short_cycle_idx = Inr sd" for sd
  proof -
    from that assms have "resolve_train_val ext (cfg ds) short_cycle_idx = Inr sd"
      by (auto simp: resolve_sampling_def)
    then show ?thesis
      by (auto simp: resolve_train_val_def split: sum.splits option.splits if_splits)
  qed
  have 2: "\<exists>sd. resolve_sampling ds ext index short_cycle_idx = Inr sd"
    if "2 \<le> length (DATA_TRAIN_JITTER_SCALES (cfg ds)) \<and>
        2 \<le> length (MULTIGRID_SHORT_CYCLE_FACTORS (cfg ds))"
  proof -
    from that have "\<exists>a. py_get (DATA_TRAIN_JITTER_SCALES (cfg ds)) 0 = Inr a"
      "\<exists>a. py_get (DATA_TRAIN_JITTER_SCALES (cfg ds)) 1 = Inr a"
      "\<exists>a. py_get (MULTIGRID_SHORT_CYCLE_FACTORS (cfg ds)) 0 = Inr a"
      "\<exists>a. py_get (MULTIGRID_SHORT_CYCLE_FACTORS (cfg ds)) 1 = Inr a"
      by (auto simp: py_get_def)
    then have "\<exists>sd. resolve_train_val ext (cfg ds) short_cycle_idx = Inr sd"
      by (auto simp: resolve_train_val_def split: option.splits)
    with assms show ?thesis
      by (auto simp: resolve_sampling_def)
  qed
  from 1 2 show ?thesis by blast
qed

theorem train_val_random_sampling_witness:
  "(mode ds_train = ''train'' \<or> mode ds_train = ''val'') \<and>
   resolve_sampling ds_train ex_ext 1 (Some 0) =
     Inr \<lparr>temporal_sample_index = - 1, spatial_sample_index = - 1, min_scale = 128,
          max_scale = 320, crop_size = 112\<rparr>"
proof -
  have m: "mode ds_train = ''train'' \<or> mode ds_train = ''val''"
    using init_fields(1) [OF ds_train_init] by simp
  have r: "resolve_sampling ds_train ex_ext 1 (Some 0) =
     Inr \<lparr>temporal_sample_index = - 1, spatial_sample_index = - 1, min_scale = 128,
          max_scale = 320, crop_size = 112\<rparr>"
    using init_fields(1,2) [OF ds_train_init]
    by (simp add: resolve_sampling_def resolve_train_val_def py_get_def ex_cfg_defs ex_ext_def
          py_round_def)
  from train_val_random_sampling [OF m, of ex_ext 1 "Some 0"] m r show ?thesis by simp
qed

text \<open>
  Claim C3. In test mode, for a logical index of a constructed dataset, the temporal sample
  index is \<open>spatial_temporal_idx[index] div NUM_SPATIAL_CROPS\<close>. With more than one spatial
  crop the spatial sample index is \<open>spatial_temporal_idx[index] mod NUM_SPATIAL_CROPS\<close> and
  both scales and the crop size are \<open>TEST_CROP_SIZE\<close>; with one spatial crop the spatial
  sample index is 1, the crop size is \<open>TEST_CROP_SIZE\<close> and both scales are
  \<open>TRAIN_JITTER_SCALES[0]\<close>. The result is \<open>Inr\<close>: the assertion on the two scales passes.
\<close>

theorem test_mode_sampling:
  assumes "init ext c ''test'' n file = Inr ds"
    and "0 \<le> index" and "index < len ds"
  shows "(1 < TEST_NUM_SPATIAL_CROPS c \<longrightarrow>
            resolve_sampling ds ext index short_cycle_idx =
              Inr \<lparr>temporal_sample_index =
                     spatial_temporal_idx ds ! nat index div TEST_NUM_SPATIAL_CROPS c,
                   spatial_sample_index =
                     spatial_temporal_idx ds ! nat index mod TEST_NUM_SPATIAL_CROPS c,
                   min_scale = DATA_TEST_CROP_SIZE c,
                   max_scale = DATA_TEST_CROP_SIZE c,
                   crop_size = DATA_TEST_CROP_SIZE c\<rparr>) \<and>
         (TEST_NUM_SPATIAL_CROPS c = 1 \<and> DATA_TRAIN_JITTER_SCALES c \<noteq> [] \<longrightarrow>
            resolve_sampling ds ext index short_cycle_idx =
              Inr \<lparr>temporal_sample_index =
                     spatial_temporal_idx ds ! nat index div TEST_NUM_SPATIAL_CROPS c,
                   spatial_sample_index = 1,
                   min_scale = DATA_TRAIN_JITTER_SCALES c ! 0,
                   max_scale = DATA_TRAIN_JITTER_SCALES c ! 0,
                   crop_size = DATA_TEST_CROP_SIZE c\<rparr>)"
proof -
  note F = init_fields [OF assms(1)]
  from assms(1) obtain lns where fl: "file = Some lns"
    by (rule init_Inr)
  note S = init_sizes [OF assms(1) [unfolded fl]]
  from assms(3) S(3) S(5) have "index < int (length (spatial_temporal_idx ds))"
    by (simp add: len_def num_videos_def)
  with assms(2) have st: "py_get (spatial_temporal_idx ds) index =
      Inr (spatial_temporal_idx ds ! nat index)"
    by (rule py_get_nth)
  have r: "resolve_sampling ds ext index short_cycle_idx = resolve_test ds index"
    using F(1) by (simp add: resolve_sampling_def)
  have 1: "resolve_test ds index =
              Inr \<lparr>temporal_sample_index =
                     spatial_temporal_idx ds ! nat index div TEST_NUM_SPATIAL_CROPS c,
                   spatial_sample_index =
                     spatial_temporal_idx ds ! nat index mod TEST_NUM_SPATIAL_CROPS c,
                   min_scale = DATA_TEST_CROP_SIZE c,
                   max_scale = DATA_TEST_CROP_SIZE c,
                   crop_size = DATA_TEST_CROP_SIZE c\<rparr>"
    if "1 < TEST_NUM_SPATIAL_CROPS c"
    using that st F(2) by (simp add: resolve_test_def py_floordiv_def py_mod_def)
  have 2: "resolve_test ds index =
              Inr \<lparr>temporal_sample_index =
                     spatial_temporal_idx ds ! nat index div TEST_NUM_SPATIAL_CROPS c,
                   spatial_sample_index = 1,
                   min_scale = DATA_TRAIN_JITTER_SCALES c ! 0,
                   max_scale = DATA_TRAIN_JITTER_SCALES c ! 0,
                   crop_size = DATA_TEST_CROP_SIZE c\<rparr>"
    if "TEST_NUM_SPATIAL_CROPS c = 1 \<and> DATA_TRAIN_JITTER_SCALES c \<noteq> []"
    using that st F(2) by (simp add: resolve_test_def py_floordiv_def py_get_def)
  from r 1 2 show ?thesis by simp
qed

theorem test_mode_sampling_witness:
  "init ex_ext ex_cfg ''test'' 20 (Some [''videos/a.mp4,7'']) = Inr ds_test \<and>
   (0::int) \<le> 4 \<and> 4 < len ds_test \<and> 1 < TEST_NUM_SPATIAL_CROPS ex_cfg \<and>
   resolve_sampling ds_test ex_ext 4 None =
     Inr \<lparr>temporal_sample_index = 1, spatial_sample_index = 1, min_scale = 224,
          max_scale = 224, crop_size = 224\<rparr> \<and>
   init ex_ext ex_cfg_center ''test'' 20
     (Some [''videos/a.mp4,7'']) = Inr ds_center \<and>
   1 < len ds_center \<and>
   resolve_sampling ds_center ex_ext 1 None =
     Inr \<lparr>temporal_sample_index = 1, spatial_sample_index = 1, min_scale = 256,
          max_scale = 256, crop_size = 224\<rparr>"
proof -
  have l: "4 < len ds_test" "1 < len ds_center"
    by (simp_all add: len_def num_videos_def ds_test_def ds_center_def)
  have c: "1 < TEST_NUM_SPATIAL_CROPS ex_cfg" by (simp add: ex_cfg_defs)
  have 1: "resolve_sampling ds_test ex_ext 4 None =
     Inr \<lparr>temporal_sample_index = 1, spatial_sample_index = 1, min_scale = 224,
          max_scale = 224, crop_size = 224\<rparr>"
    using test_mode_sampling [OF ds_test_init _ l(1), of None]
    by (simp add: ex_cfg_defs ds_test_def)
  have 2: "resolve_sampling ds_center ex_ext 1 None =
     Inr \<lparr>temporal_sample_index = 1, spatial_sample_index = 1, min_scale = 256,
          max_scale = 256, crop_size = 224\<rparr>"
    using test_mode_sampling [OF ds_center_init _ l(2), of None]
    by (simp add: ex_cfg_defs ds_center_def)
  from ds_test_init ds_center_init l c 1 2 show ?thesis by simp
qed

text \<open>
  Claim C7. In train and val mode, a tuple argument with short-cycle index 0 or 1 sets the
  crop size to \<open>int(round(SHORT_CYCLE_FACTORS[short_cycle_idx] * DEFAULT_S))\<close>; when
  \<open>DEFAULT_S > 0\<close> the minimal scale becomes
  \<open>int(round(TRAIN_JITTER_SCALES[0] * crop_size / DEFAULT_S))\<close> for the crop size just set;
  the maximal scale stays \<open>TRAIN_JITTER_SCALES[1]\<close>. The two floating-point roundings are
  the collaborators \<open>round_mul\<close> and \<open>round_muldiv\<close>.
\<close>

theorem short_cycle_rescaling:
  assumes "mode ds = ''train'' \<or> mode ds = ''val''"
    and "resolve_sampling ds ext (fst (unpack_index arg)) (snd (unpack_index arg)) = Inr sd"
  shows "(\<forall>i s. arg = ShortCycle i s \<and> (s = 0 \<or> s = 1) \<longrightarrow>
            (\<exists>f. py_get (MULTIGRID_SHORT_CYCLE_FACTORS (cfg ds)) s = Inr f \<and>
                 crop_size sd = round_mul ext f (MULTIGRID_DEFAULT_S (cfg ds)))) \<and>
         ((\<forall>i s. arg = ShortCycle i s \<longrightarrow> s \<noteq> 0 \<and> s \<noteq> 1) \<longrightarrow>
            crop_size sd = DATA_TRAIN_CROP_SIZE (cfg ds)) \<and>
         2 \<le> length (DATA_TRAIN_JITTER_SCALES (cfg ds)) \<and>
         (0 < MULTIGRID_DEFAULT_S (cfg ds) \<longrightarrow>
            min_scale sd =
              round_muldiv ext (DATA_TRAIN_JITTER_SCALES (cfg ds) ! 0) (crop_size sd)
                (MULTIGRID_DEFAULT_S (cfg ds))) \<and>
         (MULTIGRID_DEFAULT_S (cfg ds) \<le> 0 \<longrightarrow>
            min_scale sd = DATA_TRAIN_JITTER_SCALES (cfg ds) ! 0) \<and>
         max_scale sd = DATA_TRAIN_JITTER_SCALES (cfg ds) ! 1"
proof -
  let ?c = "cfg ds"
  from assms have r:
    "resolve_train_val ext ?c (snd (unpack_index arg)) = Inr sd"
    by (auto simp: resolve_sampling_def)
  then obtain mn mx where mn: "py_get (DATA_TRAIN_JITTER_SCALES ?c) 0 = Inr mn"
    and mx: "py_get (DATA_TRAIN_JITTER_SCALES ?c) 1 = Inr mx"
    by (auto simp: resolve_train_val_def split: sum.splits)
  from py_get_Inr_length [OF mx] have len: "2 \<le> length (DATA_TRAIN_JITTER_SCALES ?c)"
    and mx': "mx = DATA_TRAIN_JITTER_SCALES ?c ! 1"
    by simp_all
  from py_get_Inr_length [OF mn] have mn': "mn = DATA_TRAIN_JITTER_SCALES ?c ! 0"
    by simp
  have 1: "\<forall>i s. arg = ShortCycle i s \<and> (s = 0 \<or> s = 1) \<longrightarrow>
            (\<exists>f. py_get (MULTIGRID_SHORT_CYCLE_FACTORS ?c) s = Inr f \<and>
                 crop_size sd = round_mul ext f (MULTIGRID_DEFAULT_S ?c))"
    using r mn mx
    by (auto simp: resolve_train_val_def split: sum.splits)
  have 2: "(\<forall>i s. arg = ShortCycle i s \<longrightarrow> s \<noteq> 0 \<and> s \<noteq> 1) \<longrightarrow>
            crop_size sd = DATA_TRAIN_CROP_SIZE ?c"
    using r mn mx
    by (cases arg) (auto simp: resolve_train_val_def split: sum.splits)
  have 3: "0 < MULTIGRID_DEFAULT_S ?c \<longrightarrow>
            min_scale sd =
              round_muldiv ext (DATA_TRAIN_JITTER_SCALES ?c ! 0) (crop_size sd)
                (MULTIGRID_DEFAULT_S ?c)"
    using r mn mx unfolding mn' [symmetric]
    by (auto simp: resolve_train_val_def split: sum.splits option.splits if_splits)
  have 4: "MULTIGRID_DEFAULT_S ?c \<le> 0 \<longrightarrow> min_scale sd = DATA_TRAIN_JITTER_SCALES ?c ! 0"
    using r mn mx unfolding mn' [symmetric]
    by (auto simp: resolve_train_val_def split: sum.splits option.splits if_splits)
  have 5: "max_scale sd = DATA_TRAIN_JITTER_SCALES ?c ! 1"
    using r mn mx unfolding mx' [symmetric]
    by (auto simp: resolve_train_val_def split: sum.splits option.splits if_splits)
  from 1 2 len 3 4 5 show ?thesis
    by (intro conjI) assumption+
qed

theorem short_cycle_rescaling_witness:
  "(mode ds_train = ''train'' \<or> mode ds_train = ''val'') \<and>
   resolve_sampling ds_train ex_ext (fst (unpack_index (ShortCycle 1 0)))
       (snd (unpack_index (ShortCycle 1 0))) =
     Inr \<lparr>temporal_sample_index = - 1, spatial_sample_index = - 1, min_scale = 128,
          max_scale = 320, crop_size = 112\<rparr> \<and>
   0 < MULTIGRID_DEFAULT_S (cfg ds_train) \<and>
   py_get (MULTIGRID_SHORT_CYCLE_FACTORS (cfg ds_train)) 0 = Inr (1 / 2) \<and>
   round_mul ex_ext (1 / 2) (MULTIGRID_DEFAULT_S (cfg ds_train)) = 112 \<and>
   round_muldiv ex_ext (DATA_TRAIN_JITTER_SCALES (cfg ds_train) ! 0) 112
     (MULTIGRID_DEFAULT_S (cfg ds_train)) = 128 \<and>
   DATA_TRAIN_JITTER_SCALES (cfg ds_train) ! 1 = 320"
proof -
  note F = init_fields(1,2) [OF ds_train_init]
  have m: "mode ds_train = ''train'' \<or> mode ds_train = ''val''"
    using F by simp
  have r: "resolve_sampling ds_train ex_ext (fst (unpack_index (ShortCycle 1 0)))
       (snd (unpack_index (ShortCycle 1 0))) =
     Inr \<lparr>temporal_sample_index = - 1, spatial_sample_index = - 1, min_scale = 128,
          max_scale = 320, crop_size = 112\<rparr>"
    using F
    by (simp add: resolve_sampling_def resolve_train_val_def py_get_def ex_cfg_defs ex_ext_def
          py_round_def)
  from short_cycle_rescaling [OF m r] m r F show ?thesis
    by (simp add: ex_cfg_defs py_get_def ex_ext_def py_round_def)
qed

section \<open>The retry loop\<close>

lemma replacement_eq:
  assumes "path_to_videos ds \<noteq> []"
  shows "replacement ds ext i_try index =
     (if num_retries ds div 2 < int i_try
      then (if mode ds = ''test'' then ([Print], Inr (index + 1))
            else ([Randint 0 (int (length (path_to_videos ds)) - 1)],
                  Inr (int (rand ext i_try) mod int (length (path_to_videos ds)))))
      else ([], Inr index))"
  using assms by (simp add: replacement_def py_randint_def)

lemma py_get_nonempty: "py_get xs i = Inr x \<Longrightarrow> xs \<noteq> []"
  by (auto simp: py_get_def split: if_splits)

lemma replaced_simps:
  "replaced [] = False"
  "replaced (Acquire i p # evs) = replaced evs"
  "replaced (Decode i k # evs) = replaced evs"
  "replaced (Randint a b # evs) = True"
  "replaced (Print # evs) = True"
  by (simp_all add: replaced_def)

lemma attempt_fails_step:
  assumes "attempt_fails ds ext sd i_try index"
  shows "\<exists>p evs0.
     py_get (path_to_videos ds) index = Inr p \<and>
     (evs0 = [Acquire i_try p] \<or> evs0 = [Acquire i_try p, Decode i_try index]) \<and>
     attempt ds ext sd i_try index =
       (evs0 @ fst (replacement ds ext i_try index),
        Continue (case snd (replacement ds ext i_try index) of
                    Inl e \<Rightarrow> index | Inr index' \<Rightarrow> index'))"
proof -
  from assms obtain p where p: "py_get (path_to_videos ds) index = Inr p"
    by (auto simp: attempt_fails_def split: sum.splits)
  then have ne: "path_to_videos ds \<noteq> []" by (rule py_get_nonempty)
  show ?thesis
  proof (cases "get_video_container ext i_try p")
    case None
    with p have "attempt ds ext sd i_try index =
       ([Acquire i_try p] @ fst (replacement ds ext i_try index),
        Continue (case snd (replacement ds ext i_try index) of
                    Inl e \<Rightarrow> index | Inr index' \<Rightarrow> index'))"
      by (simp add: attempt_def replacement_eq [OF ne])
    with p show ?thesis by blast
  next
    case (Some vc)
    with assms p obtain m where m: "video_meta ds index = Some m"
      and d: "decode ext i_try vc (temporal_sample_index sd) index (min_scale sd) = None"
      by (auto simp: attempt_fails_def split: option.splits)
    with Some p have "attempt ds ext sd i_try index =
       ([Acquire i_try p, Decode i_try index] @ fst (replacement ds ext i_try index),
        Continue (case snd (replacement ds ext i_try index) of
                    Inl e \<Rightarrow> index | Inr index' \<Rightarrow> index'))"
      by (simp add: attempt_def replacement_eq [OF ne])
    with p show ?thesis by blast
  qed
qed

lemma attempt_not_fails:
  assumes "\<not> attempt_fails ds ext sd i_try index"
    and "attempt ds ext sd i_try index = (evs, out)"
  shows "\<not> replaced evs \<and> (\<forall>j. out \<noteq> Continue j) \<and> length (acquired_paths evs) \<le> 1"
  using assms
  by (auto simp: attempt_fails_def attempt_def replaced_simps
           split: sum.splits option.splits prod.splits)

lemma attempt_Return:
  assumes "attempt ds ext sd i_try index = (evs, Return it)"
  shows "\<exists>p vc frames frames_index.
     evs = [Acquire i_try p, Decode i_try index] \<and>
     py_get (path_to_videos ds) index = Inr p \<and>
     get_video_container ext i_try p = Some vc \<and>
     decode ext i_try vc (temporal_sample_index sd) index (min_scale sd) =
       Some (frames, frames_index) \<and>
     assemble ds ext sd frames frames_index index = Inr it"
proof -
  have nf: "\<not> attempt_fails ds ext sd i_try index"
  proof
    assume "attempt_fails ds ext sd i_try index"
    from attempt_fails_step [OF this] assms show False by auto
  qed
  from assms nf show ?thesis
    by (auto simp: attempt_fails_def attempt_def split: sum.splits option.splits prod.splits)
qed

lemma attempt_Continue:
  assumes "attempt ds ext sd i_try index = (evs, Continue j)"
  shows "attempt_fails ds ext sd i_try index \<and>
     j = (case snd (replacement ds ext i_try index) of Inl e \<Rightarrow> index | Inr index' \<Rightarrow> index')"
proof -
  have f: "attempt_fails ds ext sd i_try index"
  proof (rule ccontr)
    assume "\<not> attempt_fails ds ext sd i_try index"
    from attempt_not_fails [OF this assms] show False by simp
  qed
  from attempt_fails_step [OF f] assms f show ?thesis by auto
qed

lemma acquired_paths_append:
  "acquired_paths (xs @ ys) = acquired_paths xs @ acquired_paths ys"
  by (induction xs rule: acquired_paths.induct) simp_all

lemma replaced_append: "replaced (xs @ ys) = (replaced xs \<or> replaced ys)"
  by (simp add: replaced_def list_ex_iff) blast

lemma retry_loop_Inr:
  "retry_loop ds ext sd attempts index = (evs, Inr it) \<Longrightarrow>
     \<exists>k evs0 p vc frames frames_index.
        k < length attempts \<and>
        evs = evs0 @ [Acquire (attempts ! k) p,
                      Decode (attempts ! k) (candidate ds ext (take k attempts) index)] \<and>
        py_get (path_to_videos ds) (candidate ds ext (take k attempts) index) = Inr p \<and>
        get_video_container ext (attempts ! k) p = Some vc \<and>
        decode ext (attempts ! k) vc (temporal_sample_index sd)
          (candidate ds ext (take k attempts) index) (min_scale sd) =
          Some (frames, frames_index) \<and>
        assemble ds ext sd frames frames_index (candidate ds ext (take k attempts) index) =
          Inr it"
proof (induction attempts arbitrary: index evs)
  case Nil
  then show ?case by (simp split: sum.splits)
next
  case (Cons i_try rest)
  obtain e1 out where a: "attempt ds ext sd i_try index = (e1, out)"
    by (cases "attempt ds ext sd i_try index")
  show ?case
  proof (cases out)
    case (Continue j)
    obtain e2 r where l: "retry_loop ds ext sd rest j = (e2, r)"
      by (cases "retry_loop ds ext sd rest j")
    from Cons.prems a Continue l have r: "r = Inr it" and evs: "evs = e1 @ e2"
      by simp_all
    from attempt_Continue [OF a [unfolded Continue]]
    have j: "j = (case snd (replacement ds ext i_try index) of
                    Inl e \<Rightarrow> index | Inr index' \<Rightarrow> index')"
      by simp
    from Cons.IH [OF l [unfolded r]] obtain k evs0 p vc frames frames_index where
      k: "k < length rest"
      and e: "e2 = evs0 @ [Acquire (rest ! k) p, Decode (rest ! k) (candidate ds ext (take k rest) j)]"
      and rest: "py_get (path_to_videos ds) (candidate ds ext (take k rest) j) = Inr p"
        "get_video_container ext (rest ! k) p = Some vc"
        "decode ext (rest ! k) vc (temporal_sample_index sd)
          (candidate ds ext (take k rest) j) (min_scale sd) = Some (frames, frames_index)"
        "assemble ds ext sd frames frames_index (candidate ds ext (take k rest) j) = Inr it"
      by blast
    have c: "candidate ds ext (take (Suc k) (i_try # rest)) index = candidate ds ext (take k rest) j"
      using j by simp
    have "Suc k < length (i_try # rest)" using k by simp
    moreover have "evs = (e1 @ evs0) @
        [Acquire ((i_try # rest) ! Suc k) p,
         Decode ((i_try # rest) ! Suc k) (candidate ds ext (take (Suc k) (i_try # rest)) index)]"
      using evs e c by simp
    moreover note rest [folded c]
    ultimately show ?thesis
      apply (rule_tac x = "Suc k" in exI)
      apply (rule_tac x = "e1 @ evs0" in exI)
      apply (rule_tac x = p in exI)
      apply (rule_tac x = vc in exI)
      apply (rule_tac x = frames in exI)
      apply (rule_tac x = frames_index in exI)
      apply simp
      done
  next
    case (Return it')
    with Cons.prems a have it: "it' = it" and evs: "evs = e1" by simp_all
    from attempt_Return [OF a [unfolded Return it]] evs show ?thesis
      apply (rule_tac x = 0 in exI)
      apply (rule_tac x = "[]" in exI)
      apply auto
      done
  next
    case (Raise e)
    with Cons.prems a show ?thesis by simp
  qed
qed

lemma retry_loop_all_fail:
  assumes ne: "path_to_videos ds \<noteq> []"
    and fails: "\<And>i j. 0 \<le> j \<Longrightarrow> j < int (length (path_to_videos ds)) \<Longrightarrow>
                  attempt_fails ds ext sd i j"
  shows "0 \<le> index \<Longrightarrow>
     (if mode ds = ''test''
      then index + int (length (filter (\<lambda>i. num_retries ds div 2 < int i) attempts))
             < int (length (path_to_videos ds))
      else index < int (length (path_to_videos ds))) \<Longrightarrow>
     (\<exists>evs. retry_loop ds ext sd attempts index =
        (evs, Inl (RuntimeError
                    (path_to_videos ds ! nat (candidate ds ext attempts index))
                    (num_retries ds))) \<and>
        length (acquired_paths evs) = length attempts) \<and>
     0 \<le> candidate ds ext attempts index \<and>
     candidate ds ext attempts index < int (length (path_to_videos ds))"
proof (induction attempts arbitrary: index)
  case Nil
  then have "index < int (length (path_to_videos ds))"
    by (simp split: if_splits)
  with Nil.prems(1) show ?case by (simp add: py_get_def)
next
  case (Cons i_try rest)
  let ?L = "int (length (path_to_videos ds))"
  let ?j = "case snd (replacement ds ext i_try index) of Inl e \<Rightarrow> index | Inr index' \<Rightarrow> index'"
  from Cons.prems have lt: "index < ?L"
    by (simp split: if_splits)
  from attempt_fails_step [OF fails [OF Cons.prems(1) lt]]
  obtain p evs0 where
    evs0: "evs0 = [Acquire i_try p] \<or> evs0 = [Acquire i_try p, Decode i_try index]"
    and a: "attempt ds ext sd i_try index =
       (evs0 @ fst (replacement ds ext i_try index), Continue ?j)"
    by blast
  have L: "0 < ?L" using ne by simp
  have j0: "0 \<le> ?j"
    using Cons.prems(1) L by (simp add: replacement_eq [OF ne])
  have jr: "if mode ds = ''test''
      then ?j + int (length (filter (\<lambda>i. num_retries ds div 2 < int i) rest)) < ?L
      else ?j < ?L"
    using Cons.prems(2) lt L by (auto simp: replacement_eq [OF ne] split: if_splits)
  from Cons.IH [OF j0 jr] obtain evs where
    r: "retry_loop ds ext sd rest ?j =
        (evs, Inl (RuntimeError (path_to_videos ds ! nat (candidate ds ext rest ?j))
                    (num_retries ds)))"
    and n: "length (acquired_paths evs) = length rest"
    and c: "0 \<le> candidate ds ext rest ?j" "candidate ds ext rest ?j < ?L"
    by blast
  have ap: "acquired_paths (evs0 @ fst (replacement ds ext i_try index)) = [p]"
    using evs0 by (auto simp: acquired_paths_append replacement_eq [OF ne])
  have "retry_loop ds ext sd (i_try # rest) index =
        ((evs0 @ fst (replacement ds ext i_try index)) @ evs,
         Inl (RuntimeError (path_to_videos ds ! nat (candidate ds ext (i_try # rest) index))
                (num_retries ds)))"
    using a r by simp
  moreover have "length (acquired_paths ((evs0 @ fst (replacement ds ext i_try index)) @ evs)) =
      length (i_try # rest)"
    using ap n by (simp add: acquired_paths_append del: append_assoc)
  ultimately show ?case using c by auto
qed

lemma getitem_eq:
  "getitem ds ext arg =
     (case resolve_sampling ds ext (fst (unpack_index arg)) (snd (unpack_index arg)) of
        Inl e \<Rightarrow> ([], Inl e)
      | Inr sd \<Rightarrow>
          retry_loop ds ext sd [0..<nat (num_retries ds)] (fst (unpack_index arg)))"
  by (cases "unpack_index arg") (simp add: getitem_def py_range_def split: sum.splits)

lemma getitem_Inr:
  assumes "getitem ds ext arg = (evs, Inr it)"
  obtains sd where
    "resolve_sampling ds ext (fst (unpack_index arg)) (snd (unpack_index arg)) = Inr sd"
    and "retry_loop ds ext sd [0..<nat (num_retries ds)] (fst (unpack_index arg)) =
           (evs, Inr it)"
  using assms by (auto simp: getitem_eq split: sum.splits)

lemma samples_loop_Inr:
  "samples_loop ds ext sd frames index ks frame_list label_list index_list = Inr it \<Longrightarrow>
     \<exists>label.
        (ks \<noteq> [] \<longrightarrow> py_get (labels ds) index = Inr label) \<and>
        it = Multi
               (frame_list @
                map (\<lambda>k. pack_pathway_output ext
                            (aug_frame ds ext k frames (spatial_sample_index sd) (min_scale sd)
                               (max_scale sd) (crop_size sd)) None) ks)
               (label_list @ replicate (length ks) label)
               (index_list @ replicate (length ks) index)"
proof (induction ks arbitrary: frame_list label_list index_list)
  case Nil
  then show ?case by simp
next
  case (Cons k ks)
  from Cons.prems obtain label where l: "py_get (labels ds) index = Inr label"
    and r: "samples_loop ds ext sd frames index ks
              (frame_list @ [pack_pathway_output ext
                 (aug_frame ds ext k frames (spatial_sample_index sd) (min_scale sd)
                    (max_scale sd) (crop_size sd)) None])
              (label_list @ [label]) (index_list @ [index]) = Inr it"
    by (auto simp: Let_def split: sum.splits)
  from Cons.IH [OF r] obtain label' where
    l': "ks \<noteq> [] \<longrightarrow> py_get (labels ds) index = Inr label'"
    and it: "it = Multi
               ((frame_list @ [pack_pathway_output ext
                 (aug_frame ds ext k frames (spatial_sample_index sd) (min_scale sd)
                    (max_scale sd) (crop_size sd)) None]) @
                map (\<lambda>k. pack_pathway_output ext
                            (aug_frame ds ext k frames (spatial_sample_index sd) (min_scale sd)
                               (max_scale sd) (crop_size sd)) None) ks)
               ((label_list @ [label]) @ replicate (length ks) label')
               ((index_list @ [index]) @ replicate (length ks) index)"
    by blast
  have "replicate (length ks) label' = replicate (length ks) label"
    using l l' by (cases ks) auto
  with it l show ?case
    by (intro exI [of _ label]) (simp add: replicate_app_Cons_same)
qed


lemma assemble_multi:
  assumes "aug ds" and "1 < AUG_NUM_SAMPLE (cfg ds)"
    and "assemble ds ext sd frames frames_index index = Inr it"
  shows "\<exists>label. py_get (labels ds) index = Inr label \<and>
     it = Multi
            (map (\<lambda>k. pack_pathway_output ext
                         (aug_frame ds ext k frames (spatial_sample_index sd) (min_scale sd)
                            (max_scale sd) (crop_size sd)) None)
               [0..<nat (AUG_NUM_SAMPLE (cfg ds))])
            (replicate (nat (AUG_NUM_SAMPLE (cfg ds))) label)
            (replicate (nat (AUG_NUM_SAMPLE (cfg ds))) index)"
proof -
  from assms have "samples_loop ds ext sd frames index [0..<nat (AUG_NUM_SAMPLE (cfg ds))]
      [] [] [] = Inr it"
    by (simp add: assemble_def py_range_def)
  from samples_loop_Inr [OF this] assms(2) show ?thesis by auto
qed

lemma assemble_labels:
  assumes "assemble ds ext sd frames frames_index index = Inr it"
  shows "\<exists>label. py_get (labels ds) index = Inr label \<and>
     item_labels it \<noteq> [] \<and> item_indices it \<noteq> [] \<and>
     item_labels it = replicate (length (item_labels it)) label \<and>
     item_indices it = replicate (length (item_indices it)) index"
proof (cases "aug ds \<and> 1 < AUG_NUM_SAMPLE (cfg ds)")
  case True
  with assemble_multi [OF _ _ assms] show ?thesis by auto
next
  case False
  with assms show ?thesis
    by (auto simp: assemble_def single_item_def split: sum.splits if_splits)
qed

section \<open>Exhausting the retries\<close>

lemmas getitem_eval =
  getitem_def resolve_sampling_def resolve_train_val_def resolve_test_def py_get_def
  py_floordiv_def py_mod_def py_range_def upt_rec attempt_def replacement_def py_randint_def
  assemble_def single_item_def plain_frames_def aug_frame_def py_round_def
  ex_ext_def ex_ext_b_def ex_cfg_defs

text \<open>
  When every attempt fails on every index of the manifest and the candidate index stays
  inside the manifest (always so in train and val mode; in test mode when the index plus
  the number of attempts with \<open>i_try > num_retries // 2\<close> is below the length),
  \<^verbatim>\<open>__getitem__\<close> makes exactly \<open>num_retries\<close> acquisition attempts and raises the
  RuntimeError with \<open>num_retries\<close> and the path at the index the loop ends with. No item is
  returned.
\<close>

theorem exhaustion_error:
  assumes "init ext0 c m n file = Inr ds"
    and "0 \<le> fst (unpack_index arg)" and "fst (unpack_index arg) < len ds"
    and "resolve_sampling ds ext (fst (unpack_index arg)) (snd (unpack_index arg)) = Inr sd"
    and "\<forall>i j. 0 \<le> j \<and> j < len ds \<longrightarrow> attempt_fails ds ext sd i j"
    and "m = ''test'' \<longrightarrow>
           fst (unpack_index arg) +
           int (length (filter (\<lambda>i. n div 2 < int i) [0..<nat n])) < len ds"
  shows "(\<exists>evs. getitem ds ext arg =
            (evs, Inl (RuntimeError
                        (path_to_videos ds !
                           nat (candidate ds ext [0..<nat n] (fst (unpack_index arg)))) n)) \<and>
            length (acquired_paths evs) = nat n) \<and>
         0 \<le> candidate ds ext [0..<nat n] (fst (unpack_index arg)) \<and>
         candidate ds ext [0..<nat n] (fst (unpack_index arg)) < len ds"
proof -
  note F = init_fields [OF assms(1)]
  from assms(1) obtain lns where fl: "file = Some lns"
    by (rule init_Inr)
  from init_lists(4) [OF assms(1) [unfolded fl]] have ne: "path_to_videos ds \<noteq> []" .
  have len: "len ds = int (length (path_to_videos ds))"
    by (simp add: len_def num_videos_def)
  have fails: "\<And>i j. 0 \<le> j \<Longrightarrow> j < int (length (path_to_videos ds)) \<Longrightarrow>
      attempt_fails ds ext sd i j"
    using assms(5) len by simp
  have rng: "if mode ds = ''test''
      then fst (unpack_index arg) +
           int (length (filter (\<lambda>i. num_retries ds div 2 < int i) [0..<nat n]))
             < int (length (path_to_videos ds))
      else fst (unpack_index arg) < int (length (path_to_videos ds))"
    using assms(3) assms(6) F(1) F(3) len by simp
  from retry_loop_all_fail [OF ne fails assms(2) rng]
  show ?thesis
    using assms(4) F(3) len by (simp add: getitem_eq)
qed

theorem exhaustion_error_witness:
  "init ex_ext ex_cfg_multigrid ''train'' 3 (Some [''a.mp4,7'', ''b.mp4,3'']) = Inr ds_train \<and>
   (\<exists>evs. getitem ds_train ex_ext (Index 0) = (evs, Inl (RuntimeError ''data/b.mp4'' 3)) \<and>
      length (acquired_paths evs) = 3) \<and>
   init ex_ext ex_cfg ''test'' 5 (Some [''videos/a.mp4,7'']) = Inr ds_probe \<and>
   (\<exists>evs. getitem ds_probe ex_ext (Index 3) =
      (evs, Inl (RuntimeError ''data/videos/a.mp4'' 5)) \<and>
      length (acquired_paths evs) = 5) \<and>
   candidate ds_probe ex_ext [0..<5] 3 = 5"
proof -
  have r1: "resolve_sampling ds_train ex_ext (fst (unpack_index (Index 0)))
      (snd (unpack_index (Index 0))) =
      Inr \<lparr>temporal_sample_index = - 1, spatial_sample_index = - 1, min_scale = 256,
           max_scale = 320, crop_size = 224\<rparr>"
    by (simp add: getitem_eval ds_train_def)
  have f1: "\<forall>i j. 0 \<le> j \<and> j < len ds_train \<longrightarrow>
      attempt_fails ds_train ex_ext \<lparr>temporal_sample_index = - 1, spatial_sample_index = - 1,
        min_scale = 256, max_scale = 320, crop_size = 224\<rparr> i j"
    by (simp add: attempt_fails_def py_get_def ex_ext_def len_def num_videos_def ds_train_def)
  have c1: "candidate ds_train ex_ext [0..<nat 3] 0 = 1"
    by (simp add: upt_rec replacement_def py_randint_def ex_ext_def ds_train_def)
  have 1: "\<exists>evs. getitem ds_train ex_ext (Index 0) = (evs, Inl (RuntimeError ''data/b.mp4'' 3)) \<and>
      length (acquired_paths evs) = 3"
    using exhaustion_error [OF ds_train_init _ _ r1 f1] c1
    by (simp add: len_def num_videos_def ds_train_def)
  have r2: "resolve_sampling ds_probe ex_ext (fst (unpack_index (Index 3)))
      (snd (unpack_index (Index 3))) =
      Inr \<lparr>temporal_sample_index = 1, spatial_sample_index = 0, min_scale = 224,
           max_scale = 224, crop_size = 224\<rparr>"
    by (simp add: getitem_eval ds_probe_def)
  have f2: "\<forall>i j. 0 \<le> j \<and> j < len ds_probe \<longrightarrow>
      attempt_fails ds_probe ex_ext \<lparr>temporal_sample_index = 1, spatial_sample_index = 0,
        min_scale = 224, max_scale = 224, crop_size = 224\<rparr> i j"
    by (simp add: attempt_fails_def py_get_def ex_ext_def len_def num_videos_def ds_probe_def)
  have c2: "candidate ds_probe ex_ext [0..<nat 5] 3 = 5"
    by (simp add: upt_rec replacement_def py_randint_def ex_ext_def ds_probe_def)
  have p2: "''test'' = ''test'' \<longrightarrow>
      fst (unpack_index (Index 3)) +
      int (length (filter (\<lambda>i. (5::int) div 2 < int i) [0..<nat 5])) < len ds_probe"
    by (simp add: upt_rec len_def num_videos_def ds_probe_def)
  have 2: "\<exists>evs. getitem ds_probe ex_ext (Index 3) =
      (evs, Inl (RuntimeError ''data/videos/a.mp4'' 5)) \<and> length (acquired_paths evs) = 5"
    using exhaustion_error [OF ds_probe_init _ _ r2 f2 p2] c2
    by (simp add: len_def num_videos_def ds_probe_def)
  from c2 have 3: "candidate ds_probe ex_ext [0..<5] 3 = 5" by simp
  from ds_train_init ds_probe_init 1 2 3 show ?thesis by blast
qed

text \<open>
  Claim C1 fails on the code. The message \<^verbatim>\<open>"Failed to fetch video {} after {} retries."\<close>
  is formatted from \<^verbatim>\<open>self._path_to_videos[index]\<close> after the replacement step of the last
  attempt has overwritten \<open>index\<close>. In train mode with two videos and three retries, every
  acquisition failing and the draw 1 after attempt 2, all three attempts are on
  \<^verbatim>\<open>data/a.mp4\<close>, yet the error names \<^verbatim>\<open>data/b.mp4\<close>, a video that no attempt tried: the
  error does not identify the last attempted path.
\<close>

theorem exhaustion_error_wrong_path:
  "init ex_ext ex_cfg_multigrid ''train'' 3 (Some [''a.mp4,7'', ''b.mp4,3'']) = Inr ds_train \<and>
   getitem ds_train ex_ext (Index 0) =
     ([Acquire 0 ''data/a.mp4'', Acquire 1 ''data/a.mp4'', Acquire 2 ''data/a.mp4'',
       Randint 0 1],
      Inl (RuntimeError ''data/b.mp4'' 3)) \<and>
   last (acquired_paths (fst (getitem ds_train ex_ext (Index 0)))) = ''data/a.mp4'' \<and>
   ''data/b.mp4'' \<notin> set (acquired_paths (fst (getitem ds_train ex_ext (Index 0))))"
proof -
  have g: "getitem ds_train ex_ext (Index 0) =
     ([Acquire 0 ''data/a.mp4'', Acquire 1 ''data/a.mp4'', Acquire 2 ''data/a.mp4'',
       Randint 0 1],
      Inl (RuntimeError ''data/b.mp4'' 3))"
    by (simp add: getitem_eval ds_train_def)
  from ds_train_init g show ?thesis by simp
qed

text \<open>
  Claim C9 fails on the code. In test mode the replacement step is \<^verbatim>\<open>index += 1\<close> with no
  bound: on a manifest of one clip, requested index 0, every acquisition failing, the
  candidate becomes 1 after attempt 11 and attempt 12 reads \<^verbatim>\<open>self._path_to_videos[1]\<close>,
  an IndexError. The train and val branch draws \<^verbatim>\<open>random.randint(0, len - 1)\<close> and stays
  in range.
\<close>

theorem test_replacement_out_of_range:
  "init ex_ext ex_cfg_single ''test'' 20 (Some [''videos/a.mp4,7'']) = Inr ds_single \<and>
   len ds_single = 1 \<and>
   getitem ds_single ex_ext (Index 0) =
     ([Acquire 0 ''data/videos/a.mp4'', Acquire 1 ''data/videos/a.mp4'',
       Acquire 2 ''data/videos/a.mp4'', Acquire 3 ''data/videos/a.mp4'',
       Acquire 4 ''data/videos/a.mp4'', Acquire 5 ''data/videos/a.mp4'',
       Acquire 6 ''data/videos/a.mp4'', Acquire 7 ''data/videos/a.mp4'',
       Acquire 8 ''data/videos/a.mp4'', Acquire 9 ''data/videos/a.mp4'',
       Acquire 10 ''data/videos/a.mp4'', Acquire 11 ''data/videos/a.mp4'', Print],
      Inl IndexError)"
proof -
  have g: "getitem ds_single ex_ext (Index 0) =
     ([Acquire 0 ''data/videos/a.mp4'', Acquire 1 ''data/videos/a.mp4'',
       Acquire 2 ''data/videos/a.mp4'', Acquire 3 ''data/videos/a.mp4'',
       Acquire 4 ''data/videos/a.mp4'', Acquire 5 ''data/videos/a.mp4'',
       Acquire 6 ''data/videos/a.mp4'', Acquire 7 ''data/videos/a.mp4'',
       Acquire 8 ''data/videos/a.mp4'', Acquire 9 ''data/videos/a.mp4'',
       Acquire 10 ''data/videos/a.mp4'', Acquire 11 ''data/videos/a.mp4'', Print],
      Inl IndexError)"
    by (simp add: getitem_eval ds_single_def)
  have l: "len ds_single = 1"
    by (simp add: len_def num_videos_def ds_single_def)
  from ds_single_init l g show ?thesis by simp
qed

section \<open>Candidates inside the manifest\<close>

lemma samples_loop_total:
  assumes "py_get (labels ds) index = Inr label"
  shows "\<exists>it. samples_loop ds ext sd frames index ks frame_list label_list index_list = Inr it"
  using assms
  by (induction ks arbitrary: frame_list label_list index_list) (simp_all add: Let_def)

lemma assemble_total:
  assumes "0 \<le> index" and "index < int (length (labels ds))"
  shows "\<exists>it. assemble ds ext sd frames frames_index index = Inr it"
proof -
  from assms have l: "py_get (labels ds) index = Inr (labels ds ! nat index)"
    by (rule py_get_nth)
  from samples_loop_total [OF l, of ext sd frames "py_range (AUG_NUM_SAMPLE (cfg ds))"
      "[]" "[]" "[]"] l
  show ?thesis
    by (simp add: assemble_def single_item_def)
qed

lemma attempt_in_range:
  assumes ne: "path_to_videos ds \<noteq> []"
    and lb: "length (labels ds) = length (path_to_videos ds)"
    and vm: "dom (video_meta ds) = {0..<int (length (path_to_videos ds))}"
    and i0: "0 \<le> index" and i1: "index < int (length (path_to_videos ds))"
  shows "attempt_fails ds ext sd i_try index \<or>
         (\<exists>evs it. attempt ds ext sd i_try index = (evs, Return it))"
proof -
  from i0 i1 have p: "py_get (path_to_videos ds) index = Inr (path_to_videos ds ! nat index)"
    by (rule py_get_nth)
  from vm i0 i1 have "index \<in> dom (video_meta ds)" by simp
  then obtain u where m: "video_meta ds index = Some u" by blast
  from assemble_total [of index ds] i0 i1 lb
  have a: "\<exists>it. assemble ds ext sd frames frames_index index = Inr it" for frames frames_index
    by simp
  show ?thesis
  proof (cases "attempt_fails ds ext sd i_try index")
    case True
    then show ?thesis by simp
  next
    case False
    with p m obtain vc frames frames_index where
      "get_video_container ext i_try (path_to_videos ds ! nat index) = Some vc"
      "decode ext i_try vc (temporal_sample_index sd) index (min_scale sd) =
         Some (frames, frames_index)"
      by (auto simp: attempt_fails_def split: option.splits)
    moreover from a obtain it where "assemble ds ext sd frames frames_index index = Inr it"
      by blast
    ultimately have "attempt ds ext sd i_try index =
        ([Acquire i_try (path_to_videos ds ! nat index), Decode i_try index], Return it)"
      using p m by (simp add: attempt_def)
    then show ?thesis by blast
  qed
qed

lemma retry_loop_in_range:
  assumes ne: "path_to_videos ds \<noteq> []"
    and lb: "length (labels ds) = length (path_to_videos ds)"
    and vm: "dom (video_meta ds) = {0..<int (length (path_to_videos ds))}"
  shows "0 \<le> index \<Longrightarrow>
     (if mode ds = ''test''
      then index + int (length (filter (\<lambda>i. num_retries ds div 2 < int i) attempts))
             < int (length (path_to_videos ds))
      else index < int (length (path_to_videos ds))) \<Longrightarrow>
     (\<exists>evs it. retry_loop ds ext sd attempts index = (evs, Inr it)) \<or>
     (\<exists>evs p. retry_loop ds ext sd attempts index =
                 (evs, Inl (RuntimeError p (num_retries ds))))"
proof (induction attempts arbitrary: index)
  case Nil
  then have "index < int (length (path_to_videos ds))"
    by (simp split: if_splits)
  with Nil.prems(1) show ?case by (simp add: py_get_def)
next
  case (Cons i_try rest)
  let ?L = "int (length (path_to_videos ds))"
  let ?j = "case snd (replacement ds ext i_try index) of Inl e \<Rightarrow> index | Inr index' \<Rightarrow> index'"
  from Cons.prems have lt: "index < ?L"
    by (simp split: if_splits)
  have L: "0 < ?L" using ne by simp
  from attempt_in_range [OF ne lb vm Cons.prems(1) lt, of ext sd i_try]
  show ?case
  proof
    assume "attempt_fails ds ext sd i_try index"
    from attempt_fails_step [OF this] obtain evs0 where
      a: "attempt ds ext sd i_try index =
         (evs0 @ fst (replacement ds ext i_try index), Continue ?j)"
      by blast
    have j0: "0 \<le> ?j"
      using Cons.prems(1) L by (simp add: replacement_eq [OF ne])
    have jr: "if mode ds = ''test''
        then ?j + int (length (filter (\<lambda>i. num_retries ds div 2 < int i) rest)) < ?L
        else ?j < ?L"
      using Cons.prems(2) lt L by (auto simp: replacement_eq [OF ne] split: if_splits)
    from Cons.IH [OF j0 jr] a show ?thesis
      by (auto split: prod.splits)
  next
    assume "\<exists>evs it. attempt ds ext sd i_try index = (evs, Return it)"
    then show ?thesis by auto
  qed
qed

text \<open>
  While the candidate stays inside the manifest, no list or dict access of the loop fails:
  \<^verbatim>\<open>__getitem__\<close> returns an item or raises the exhaustion error. This holds for every
  logical index in train and val mode, and in test mode when the index plus the number of
  attempts with \<open>i_try > num_retries // 2\<close> is below the length of the manifest.
\<close>

theorem candidates_in_range:
  assumes "init ext0 c m n file = Inr ds"
    and "0 \<le> fst (unpack_index arg)" and "fst (unpack_index arg) < len ds"
    and "resolve_sampling ds ext (fst (unpack_index arg)) (snd (unpack_index arg)) = Inr sd"
    and "m = ''test'' \<longrightarrow>
           fst (unpack_index arg) +
           int (length (filter (\<lambda>i. n div 2 < int i) [0..<nat n])) < len ds"
  shows "(\<exists>evs it. getitem ds ext arg = (evs, Inr it)) \<or>
         (\<exists>evs p. getitem ds ext arg = (evs, Inl (RuntimeError p n)))"
proof -
  note F = init_fields [OF assms(1)]
  from assms(1) obtain lns where fl: "file = Some lns"
    by (rule init_Inr)
  note S = init_sizes [OF assms(1) [unfolded fl]]
  from init_lists(4) [OF assms(1) [unfolded fl]] have ne: "path_to_videos ds \<noteq> []" .
  from S(3) S(4) have lb: "length (labels ds) = length (path_to_videos ds)" by simp
  have len: "len ds = int (length (path_to_videos ds))"
    by (simp add: len_def num_videos_def)
  have rng: "if mode ds = ''test''
      then fst (unpack_index arg) +
           int (length (filter (\<lambda>i. num_retries ds div 2 < int i) [0..<nat n]))
             < int (length (path_to_videos ds))
      else fst (unpack_index arg) < int (length (path_to_videos ds))"
    using assms(3) assms(5) F(1) F(3) len by simp
  from retry_loop_in_range [OF ne lb S(6) assms(2) rng, of ext sd]
  show ?thesis
    using assms(4) F(3) by (simp add: getitem_eq)
qed

theorem candidates_in_range_witness:
  "init ex_ext ex_cfg ''train'' 5 (Some [''a.mp4,7'', ''b.mp4,3'']) = Inr ds_five \<and>
   (0::int) \<le> 0 \<and> 0 < len ds_five \<and>
   resolve_sampling ds_five ex_ext_b 0 None =
     Inr \<lparr>temporal_sample_index = - 1, spatial_sample_index = - 1, min_scale = 256,
          max_scale = 320, crop_size = 224\<rparr> \<and>
   ((\<exists>evs it. getitem ds_five ex_ext_b (Index 0) = (evs, Inr it)) \<or>
    (\<exists>evs p. getitem ds_five ex_ext_b (Index 0) = (evs, Inl (RuntimeError p 5))))"
proof -
  have l: "0 < len ds_five"
    by (simp add: len_def num_videos_def ds_five_def)
  have r: "resolve_sampling ds_five ex_ext_b (fst (unpack_index (Index 0)))
      (snd (unpack_index (Index 0))) =
     Inr \<lparr>temporal_sample_index = - 1, spatial_sample_index = - 1, min_scale = 256,
          max_scale = 320, crop_size = 224\<rparr>"
    by (simp add: getitem_eval ds_five_def)
  from candidates_in_range [OF ds_five_init _ _ r] l
  have "(\<exists>evs it. getitem ds_five ex_ext_b (Index 0) = (evs, Inr it)) \<or>
    (\<exists>evs p. getitem ds_five ex_ext_b (Index 0) = (evs, Inl (RuntimeError p 5)))"
    by simp
  with ds_five_init l r show ?thesis by simp
qed

section \<open>The replacement policy\<close>

text \<open>
  Claim C2. In every pass of the loop body the replacement policy runs exactly when the
  attempt failed and \<open>i_try > num_retries // 2\<close>. A failed attempt continues with the draw
  of \<^verbatim>\<open>random.randint(0, len - 1)\<close> (an index of the manifest) outside test mode and with
  \<open>index + 1\<close> in test mode when the policy runs, and with the same index otherwise. With
  twenty retries the attempts 0 to 10 never replace. When the first attempt returns an
  item, \<^verbatim>\<open>__getitem__\<close> returns it after that single acquisition and no replacement.
\<close>

theorem replacement_policy:
  assumes "attempt ds ext sd i_try index = (evs, out)"
  shows "(replaced evs \<longleftrightarrow>
            attempt_fails ds ext sd i_try index \<and> num_retries ds div 2 < int i_try) \<and>
         (attempt_fails ds ext sd i_try index \<longrightarrow>
            out = Continue
                    (if num_retries ds div 2 < int i_try
                     then (if mode ds = ''test'' then index + 1
                           else int (rand ext i_try) mod int (length (path_to_videos ds)))
                     else index)) \<and>
         (attempt_fails ds ext sd i_try index \<and> num_retries ds div 2 < int i_try \<and>
          mode ds \<noteq> ''test'' \<longrightarrow>
            Randint 0 (int (length (path_to_videos ds)) - 1) \<in> set evs \<and>
            0 \<le> int (rand ext i_try) mod int (length (path_to_videos ds)) \<and>
            int (rand ext i_try) mod int (length (path_to_videos ds))
              < int (length (path_to_videos ds))) \<and>
         (num_retries ds = 20 \<and> i_try \<le> 10 \<longrightarrow> \<not> replaced evs) \<and>
         (i_try = 0 \<and> 0 < num_retries ds \<and> index = fst (unpack_index arg) \<and>
          resolve_sampling ds ext index (snd (unpack_index arg)) = Inr sd \<and>
          out = Return it \<longrightarrow>
            getitem ds ext arg = (evs, Inr it) \<and>
            length (acquired_paths evs) = 1 \<and> \<not> replaced evs)"
proof (cases "attempt_fails ds ext sd i_try index")
  case True
  from attempt_fails_step [OF True] obtain p evs0 where
    p: "py_get (path_to_videos ds) index = Inr p"
    and evs0: "evs0 = [Acquire i_try p] \<or> evs0 = [Acquire i_try p, Decode i_try index]"
    and a: "attempt ds ext sd i_try index =
       (evs0 @ fst (replacement ds ext i_try index),
        Continue (case snd (replacement ds ext i_try index) of
                    Inl e \<Rightarrow> index | Inr index' \<Rightarrow> index'))"
    by blast
  from p have ne: "path_to_videos ds \<noteq> []" by (rule py_get_nonempty)
  from a assms have evs: "evs = evs0 @ fst (replacement ds ext i_try index)"
    and out: "out = Continue (case snd (replacement ds ext i_try index) of
                    Inl e \<Rightarrow> index | Inr index' \<Rightarrow> index')"
    by simp_all
  have r0: "\<not> replaced evs0"
    using evs0 by (auto simp: replaced_simps)
  have 1: "replaced evs \<longleftrightarrow> num_retries ds div 2 < int i_try"
    using r0 by (simp add: evs replaced_append replacement_eq [OF ne] replaced_simps)
  have 2: "out = Continue
                    (if num_retries ds div 2 < int i_try
                     then (if mode ds = ''test'' then index + 1
                           else int (rand ext i_try) mod int (length (path_to_videos ds)))
                     else index)"
    by (simp add: out replacement_eq [OF ne])
  have 3: "Randint 0 (int (length (path_to_videos ds)) - 1) \<in> set evs"
    if "num_retries ds div 2 < int i_try" and "mode ds \<noteq> ''test''"
    using that by (simp add: evs replacement_eq [OF ne])
  have 4: "0 \<le> int (rand ext i_try) mod int (length (path_to_videos ds)) \<and>
      int (rand ext i_try) mod int (length (path_to_videos ds))
        < int (length (path_to_videos ds))"
    using ne by simp
  have 5: "\<not> replaced evs" if "num_retries ds = 20 \<and> i_try \<le> 10"
    using that 1 by simp
  from True 1 2 3 4 5 out show ?thesis by auto
next
  case False
  from attempt_not_fails [OF False assms] have nr: "\<not> replaced evs"
    and nc: "\<forall>j. out \<noteq> Continue j"
    by simp_all
  have 6: "getitem ds ext arg = (evs, Inr it) \<and>
            length (acquired_paths evs) = 1 \<and> \<not> replaced evs"
    if h: "i_try = 0 \<and> 0 < num_retries ds \<and> index = fst (unpack_index arg) \<and>
          resolve_sampling ds ext index (snd (unpack_index arg)) = Inr sd \<and>
          out = Return it"
  proof -
    from h assms have a: "attempt ds ext sd 0 (fst (unpack_index arg)) = (evs, Return it)"
      by simp
    from h have r: "resolve_sampling ds ext (fst (unpack_index arg))
        (snd (unpack_index arg)) = Inr sd"
      by auto
    from h have u: "[0..<nat (num_retries ds)] = 0 # [Suc 0..<nat (num_retries ds)]"
      by (simp add: upt_rec)
    have "retry_loop ds ext sd [0..<nat (num_retries ds)] (fst (unpack_index arg)) =
        (evs, Inr it)"
      by (subst u) (simp add: a)
    then have "getitem ds ext arg = (evs, Inr it)"
      by (simp add: getitem_eq r)
    moreover from attempt_Return [OF a] have "length (acquired_paths evs) = 1"
      by auto
    ultimately show ?thesis using nr by simp
  qed
  from False nr 6 show ?thesis by auto
qed

theorem replacement_policy_witness:
  "attempt ds_five ex_ext
     \<lparr>temporal_sample_index = - 1, spatial_sample_index = - 1, min_scale = 256,
      max_scale = 320, crop_size = 224\<rparr> 3 0 =
     ([Acquire 3 ''data/a.mp4'', Randint 0 1], Continue 1) \<and>
   replaced [Acquire 3 ''data/a.mp4'', Randint 0 1] \<and>
   attempt ds_probe ex_ext
     \<lparr>temporal_sample_index = 0, spatial_sample_index = 0, min_scale = 224,
      max_scale = 224, crop_size = 224\<rparr> 3 0 =
     ([Acquire 3 ''data/videos/a.mp4'', Print], Continue 1) \<and>
   replaced [Acquire 3 ''data/videos/a.mp4'', Print] \<and>
   attempt ds_test ex_ext
     \<lparr>temporal_sample_index = 0, spatial_sample_index = 0, min_scale = 224,
      max_scale = 224, crop_size = 224\<rparr> 10 0 =
     ([Acquire 10 ''data/videos/a.mp4''], Continue 0) \<and>
   \<not> replaced [Acquire 10 ''data/videos/a.mp4''] \<and>
   getitem ds_five ex_ext_b (Index 1) =
     ([Acquire 0 ''data/b.mp4'', Decode 0 1],
      Inr (Single
             (Packed
                (Sampled 0 (Permuted (Normalized (Clip 1)) [3, 0, 1, 2]) (- 1) 256 320 224
                   None None False)
                (Some [0, 2, 4, 6]))
             3 1))"
proof -
  let ?sd = "\<lparr>temporal_sample_index = - 1, spatial_sample_index = - 1, min_scale = 256,
      max_scale = 320, crop_size = 224\<rparr>"
  let ?st = "\<lparr>temporal_sample_index = 0, spatial_sample_index = 0, min_scale = 224,
      max_scale = 224, crop_size = 224\<rparr>"
  let ?it = "Single
             (Packed
                (Sampled 0 (Permuted (Normalized (Clip 1)) [3, 0, 1, 2]) (- 1) 256 320 224
                   None None False)
                (Some [0, 2, 4, 6]))
             3 1"
  have a1: "attempt ds_five ex_ext ?sd 3 0 =
     ([Acquire 3 ''data/a.mp4'', Randint 0 1], Continue 1)"
    by (simp add: getitem_eval ds_five_def)
  have f1: "attempt_fails ds_five ex_ext ?sd 3 0"
    by (simp add: attempt_fails_def py_get_def ex_ext_def ds_five_def)
  have n1: "num_retries ds_five div 2 < int 3"
    by (simp add: ds_five_def)
  have 1: "replaced [Acquire 3 ''data/a.mp4'', Randint 0 1]"
    using replacement_policy [OF a1] f1 n1 by blast
  have a2: "attempt ds_probe ex_ext ?st 3 0 =
     ([Acquire 3 ''data/videos/a.mp4'', Print], Continue 1)"
    by (simp add: getitem_eval ds_probe_def)
  have f2: "attempt_fails ds_probe ex_ext ?st 3 0"
    by (simp add: attempt_fails_def py_get_def ex_ext_def ds_probe_def)
  have n2: "num_retries ds_probe div 2 < int 3"
    by (simp add: ds_probe_def)
  have 2: "replaced [Acquire 3 ''data/videos/a.mp4'', Print]"
    using replacement_policy [OF a2] f2 n2 by blast
  have a3: "attempt ds_test ex_ext ?st 10 0 = ([Acquire 10 ''data/videos/a.mp4''], Continue 0)"
    by (simp add: getitem_eval ds_test_def)
  have n3: "num_retries ds_test = 20 \<and> (10::nat) \<le> 10"
    by (simp add: ds_test_def)
  have 3: "\<not> replaced [Acquire 10 ''data/videos/a.mp4'']"
    using replacement_policy [OF a3] n3 by blast
  have a4: "attempt ds_five ex_ext_b ?sd 0 1 =
     ([Acquire 0 ''data/b.mp4'', Decode 0 1], Return ?it)"
    by (simp add: getitem_eval ds_five_def)
  have h4: "(0::nat) = 0 \<and> 0 < num_retries ds_five \<and> 1 = fst (unpack_index (Index 1)) \<and>
      resolve_sampling ds_five ex_ext_b 1 (snd (unpack_index (Index 1))) = Inr ?sd \<and>
      Return ?it = Return ?it"
    by (simp add: getitem_eval ds_five_def)
  have 4: "getitem ds_five ex_ext_b (Index 1) =
     ([Acquire 0 ''data/b.mp4'', Decode 0 1], Inr ?it)"
    using replacement_policy [OF a4, of "Index 1" ?it] h4 by blast
  from a1 1 a2 2 a3 3 4 show ?thesis by blast
qed

section \<open>The item returned\<close>

text \<open>
  Claim C5. A returned item carries the label and the index of the candidate that was
  served: the trace ends with the acquisition of \<open>path_to_videos[j]\<close> and the decode on the
  metadata slot \<open>j\<close>, where \<open>j\<close> is the candidate reached by the replacement steps of the
  attempts before; every label of the item is \<open>labels[j]\<close> and every index is \<open>j\<close>, whatever
  index was requested.
\<close>

theorem served_candidate:
  assumes "getitem ds ext arg = (evs, Inr it)"
  shows "\<exists>k evs0 p label.
           k < nat (num_retries ds) \<and>
           evs = evs0 @
             [Acquire k p, Decode k (candidate ds ext [0..<k] (fst (unpack_index arg)))] \<and>
           py_get (path_to_videos ds) (candidate ds ext [0..<k] (fst (unpack_index arg))) =
             Inr p \<and>
           py_get (labels ds) (candidate ds ext [0..<k] (fst (unpack_index arg))) =
             Inr label \<and>
           item_labels it \<noteq> [] \<and> item_indices it \<noteq> [] \<and>
           item_labels it = replicate (length (item_labels it)) label \<and>
           item_indices it =
             replicate (length (item_indices it))
               (candidate ds ext [0..<k] (fst (unpack_index arg)))"
proof -
  from assms obtain sd where
    l: "retry_loop ds ext sd [0..<nat (num_retries ds)] (fst (unpack_index arg)) =
           (evs, Inr it)"
    by (rule getitem_Inr)
  let ?as = "[0..<nat (num_retries ds)]"
  from retry_loop_Inr [OF l] obtain k evs0 p vc frames frames_index where
    k: "k < length ?as"
    and e: "evs = evs0 @ [Acquire (?as ! k) p,
              Decode (?as ! k) (candidate ds ext (take k ?as) (fst (unpack_index arg)))]"
    and p: "py_get (path_to_videos ds)
              (candidate ds ext (take k ?as) (fst (unpack_index arg))) = Inr p"
    and a: "assemble ds ext sd frames frames_index
              (candidate ds ext (take k ?as) (fst (unpack_index arg))) = Inr it"
    by blast
  from k have k': "k < nat (num_retries ds)" by simp
  then have nth: "?as ! k = k" by simp
  from k' have tk: "take k ?as = [0..<k]" by (simp add: take_upt)
  from assemble_labels [OF a] obtain label where
    "py_get (labels ds) (candidate ds ext (take k ?as) (fst (unpack_index arg))) = Inr label"
    "item_labels it \<noteq> []" "item_indices it \<noteq> []"
    "item_labels it = replicate (length (item_labels it)) label"
    "item_indices it = replicate (length (item_indices it))
       (candidate ds ext (take k ?as) (fst (unpack_index arg)))"
    by blast
  with k' e p show ?thesis
    unfolding nth tk
    apply (rule_tac x = k in exI)
    apply (rule_tac x = evs0 in exI)
    apply (rule_tac x = p in exI)
    apply (rule_tac x = label in exI)
    apply (intro conjI)
    apply assumption+
    done
qed

theorem served_candidate_witness:
  "getitem ds_five ex_ext_b (Index 0) =
     ([Acquire 0 ''data/a.mp4'', Acquire 1 ''data/a.mp4'', Acquire 2 ''data/a.mp4'',
       Acquire 3 ''data/a.mp4'', Randint 0 1, Acquire 4 ''data/b.mp4'', Decode 4 1],
      Inr (Single
             (Packed
                (Sampled 0 (Permuted (Normalized (Clip 1)) [3, 0, 1, 2]) (- 1) 256 320 224
                   None None False)
                (Some [0, 2, 4, 6]))
             3 1)) \<and>
   4 < nat (num_retries ds_five) \<and>
   candidate ds_five ex_ext_b [0..<4] 0 = 1 \<and>
   py_get (path_to_videos ds_five) (candidate ds_five ex_ext_b [0..<4] 0) =
     Inr ''data/b.mp4'' \<and>
   py_get (labels ds_five) (candidate ds_five ex_ext_b [0..<4] 0) = Inr 3"
proof -
  have g: "getitem ds_five ex_ext_b (Index 0) =
     ([Acquire 0 ''data/a.mp4'', Acquire 1 ''data/a.mp4'', Acquire 2 ''data/a.mp4'',
       Acquire 3 ''data/a.mp4'', Randint 0 1, Acquire 4 ''data/b.mp4'', Decode 4 1],
      Inr (Single
             (Packed
                (Sampled 0 (Permuted (Normalized (Clip 1)) [3, 0, 1, 2]) (- 1) 256 320 224
                   None None False)
                (Some [0, 2, 4, 6]))
             3 1))"
    by (simp add: getitem_eval ds_five_def)
  from served_candidate [OF g] g show ?thesis
    by auto
qed

text \<open>
  Claim C6. With policy augmentation active and \<open>AUG.NUM_SAMPLE = k > 1\<close>, a returned item
  is the list variant: \<open>k\<close> packed tensors, one \<^verbatim>\<open>_aug_frame\<close> draw each from the same
  decoded clip, \<open>k\<close> times the label of the served index and \<open>k\<close> times that index.
\<close>

theorem multi_sample_item:
  assumes "aug ds" and "AUG_NUM_SAMPLE (cfg ds) = k" and "1 < k"
    and "getitem ds ext arg = (evs, Inr it)"
  shows "(\<exists>(sd::sampling) frames label index.
            it = Multi
                   (map (\<lambda>d. pack_pathway_output ext
                                (aug_frame ds ext d frames (spatial_sample_index sd)
                                   (min_scale sd) (max_scale sd) (crop_size sd)) None)
                      [0..<nat k])
                   (replicate (nat k) label) (replicate (nat k) index) \<and>
            py_get (labels ds) index = Inr label) \<and>
         length (item_frames it) = nat k \<and>
         length (item_labels it) = nat k \<and>
         length (item_indices it) = nat k"
proof -
  from assms(4) obtain sd where
    l: "retry_loop ds ext sd [0..<nat (num_retries ds)] (fst (unpack_index arg)) =
           (evs, Inr it)"
    by (rule getitem_Inr)
  from retry_loop_Inr [OF l] obtain frames frames_index index where
    a: "assemble ds ext sd frames frames_index index = Inr it"
    by blast
  from assms(2) assms(3) have "1 < AUG_NUM_SAMPLE (cfg ds)" by simp
  from assemble_multi [OF assms(1) this a] obtain label where
    lb: "py_get (labels ds) index = Inr label"
    and it: "it = Multi
            (map (\<lambda>d. pack_pathway_output ext
                         (aug_frame ds ext d frames (spatial_sample_index sd) (min_scale sd)
                            (max_scale sd) (crop_size sd)) None)
               [0..<nat k])
            (replicate (nat k) label) (replicate (nat k) index)"
    unfolding assms(2) by blast
  from it have n: "length (item_frames it) = nat k" "length (item_labels it) = nat k"
    "length (item_indices it) = nat k"
    by simp_all
  from it lb have "\<exists>(sd::sampling) frames label index.
            it = Multi
                   (map (\<lambda>d. pack_pathway_output ext
                                (aug_frame ds ext d frames (spatial_sample_index sd)
                                   (min_scale sd) (max_scale sd) (crop_size sd)) None)
                      [0..<nat k])
                   (replicate (nat k) label) (replicate (nat k) index) \<and>
            py_get (labels ds) index = Inr label"
    by (intro exI conjI)
  with n show ?thesis by (intro conjI)
qed

theorem multi_sample_item_witness:
  "aug ds_aug \<and> AUG_NUM_SAMPLE (cfg ds_aug) = 2 \<and> (1::int) < 2 \<and>
   getitem ds_aug ex_ext_b (Index 1) =
     ([Acquire 0 ''data/b.mp4'', Decode 0 1],
      Inr (Multi [Packed (ex_aug 0) None, Packed (ex_aug 1) None] [3, 3] [1, 1])) \<and>
   length (item_labels (Multi [Packed (ex_aug 0) None, Packed (ex_aug 1) None] [3, 3] [1, 1]))
     = nat 2"
proof -
  have a: "aug ds_aug" and k: "AUG_NUM_SAMPLE (cfg ds_aug) = 2"
    by (simp_all add: ds_aug_def ex_cfg_defs)
  have g: "getitem ds_aug ex_ext_b (Index 1) =
     ([Acquire 0 ''data/b.mp4'', Decode 0 1],
      Inr (Multi [Packed (ex_aug 0) None, Packed (ex_aug 1) None] [3, 3] [1, 1]))"
    by (simp add: getitem_eval ds_aug_def ex_aug_def)
  from multi_sample_item [OF a k _ g] a k g show ?thesis by simp
qed



end
